theory Spec2Isabelle
  imports Complex_Main
begin

section \<open>Conventions of the embedding\<close>

text \<open>
  The development embeds parts of the Ensembler toolkit: the one-dimensional potentials of
  \<^verbatim>\<open>ensembler/potentials/OneD.py\<close>, the stochastic samplers of
  \<^verbatim>\<open>ensembler/samplers/stochastic.py\<close> and the setters of
  \<^verbatim>\<open>ensembler/system/eds_system.py\<close>.

  \<^item> Python and numpy floats are modelled as \<open>real\<close>: rounding, overflow and NaN are
    outside the model. The one special value a claim depends on, \<^verbatim>\<open>np.inf\<close> as a
    returned force, is a constructor of its own.
  \<^item> An exception is a value of \<open>py_error\<close>; a function that can raise returns
    \<open>py_error + 'a\<close>.
  \<^item> A leading underscore of a Python name is dropped (\<^verbatim>\<open>_calculate_energies\<close> is
    \<open>calculate_energies\<close>), and a field name used by two classes gets a prefix.
  \<^item> Positions are one-dimensional (\<^verbatim>\<open>nDimensions = 1\<close>), as all of OneD.py is;
    only the gradient routine of the enveloped potential works on nested arrays, which have a
    type of their own.
  \<^item> Random numbers are inputs: a function that draws takes what it draws as arguments.
  \<^item> Diagnostic printing (\<^verbatim>\<open>verbose\<close>) is left out.
\<close>

datatype py_error = TypeError | ValueError | AttributeError | IndexError | ZeroDivisionError

text \<open>A float that may be \<^verbatim>\<open>np.inf\<close>.\<close>

datatype npfloat = Finite real | PosInf

text \<open>\<^verbatim>\<open>scipy.constants.gas_constant\<close> (CODATA 2018, J/(mol K)).\<close>

definition gas_constant :: real where
  "gas_constant = 831446261815324 / 100000000000000"

section \<open>Flat-well potential\<close>

text \<open>
  \<^verbatim>\<open>flatwellPotential.__init__\<close> stores \<^verbatim>\<open>min(x_range)\<close> and
  \<^verbatim>\<open>max(x_range)\<close>; both raise ValueError on an empty sequence.
\<close>

record flatwellPotential =
  x_min :: real
  x_max :: real
  y_max :: real
  y_min :: real

fun py_min :: "real list \<Rightarrow> py_error + real" where
  "py_min [] = Inl ValueError"
| "py_min (x # xs) = Inr (fold min xs x)"

fun py_max :: "real list \<Rightarrow> py_error + real" where
  "py_max [] = Inl ValueError"
| "py_max (x # xs) = Inr (fold max xs x)"

definition flatwellPotential_init ::
  "real list \<Rightarrow> real \<Rightarrow> real \<Rightarrow> py_error + flatwellPotential" where
  "flatwellPotential_init x_range ymax ymin =
     (case py_min x_range of
        Inl e \<Rightarrow> Inl e
      | Inr lo \<Rightarrow>
          (case py_max x_range of
             Inl e \<Rightarrow> Inl e
           | Inr hi \<Rightarrow> Inr \<lparr>x_min = lo, x_max = hi, y_max = ymax, y_min = ymin\<rparr>))"

text \<open>
  The two evaluators are list comprehensions over the positions
  (\<^verbatim>\<open>np.array(np.squeeze(position), ndmin=1)\<close>); the final \<^verbatim>\<open>np.squeeze\<close>
  turns a one-element result into a scalar, so a single position is the one-element list.
\<close>

definition calculate_energies :: "flatwellPotential \<Rightarrow> real list \<Rightarrow> real list" where
  "calculate_energies fw positions =
     map (\<lambda>pos. if pos \<ge> x_min fw \<and> pos \<le> x_max fw then y_min fw else y_max fw) positions"

definition calculate_dVdpos :: "flatwellPotential \<Rightarrow> real list \<Rightarrow> npfloat list" where
  "calculate_dVdpos fw positions =
     map (\<lambda>pos. if pos = x_min fw \<or> pos = x_max fw then PosInf else Finite 0) positions"

section \<open>Wave potential and its unit toggle\<close>

text \<open>
  \<^verbatim>\<open>V_functional = amplitude * cos(multiplicity * (position + phase_shift)) + y_shift\<close>
  with the constants substituted, and its derivative in the position as
  \<^verbatim>\<open>sp.diff\<close> gives it.
\<close>

definition wave_V :: "real \<Rightarrow> real \<Rightarrow> real \<Rightarrow> real \<Rightarrow> real \<Rightarrow> real" where
  "wave_V A m w Voff r = A * cos (m * (r + w)) + Voff"

definition wave_dVdpos :: "real \<Rightarrow> real \<Rightarrow> real \<Rightarrow> real \<Rightarrow> real \<Rightarrow> real" where
  "wave_dVdpos A m w Voff r = - (A * m * sin (m * (r + w)))"

definition deg2rad :: "real \<Rightarrow> real" where
  "deg2rad x = x * (pi / 180)"

text \<open>
  An evaluator attribute holds either a function object bound when it was assigned
  (\<^verbatim>\<open>self._calculate_energies = self.tmp_Vfunc\<close>) or one of the two lambdas of
  \<^verbatim>\<open>set_degrees\<close>, which read \<^verbatim>\<open>self.tmp_Vfunc\<close> (or
  \<^verbatim>\<open>self.tmp_dVdpfunc\<close>) when they are called.
\<close>

datatype evaluator = Direct "real \<Rightarrow> real" | Deg2radOfTmp

record wavePotential =
  amplitude :: real
  multiplicity :: real
  phase_shift :: real
  wave_y_shift :: real
  radians :: bool
  tmp_Vfunc :: "real \<Rightarrow> real"
  tmp_dVdpfunc :: "real \<Rightarrow> real"
  wave_calculate_energies :: evaluator
  wave_calculate_dVdpos :: evaluator

text \<open>
  Modelled from the spec: the base class's \<^verbatim>\<open>_update_functions\<close>
  (\<^verbatim>\<open>_potential1DCls\<close>, not among the sources) compiles the energy evaluator and the
  gradient evaluator from the closed form and the constants. The override of
  \<^verbatim>\<open>wavePotential\<close> then saves both as \<^verbatim>\<open>tmp_Vfunc\<close> and
  \<^verbatim>\<open>tmp_dVdpfunc\<close>.
\<close>

definition wave_update_functions :: "wavePotential \<Rightarrow> wavePotential" where
  "wave_update_functions p =
     (let V = wave_V (amplitude p) (multiplicity p) (phase_shift p) (wave_y_shift p);
          dV = wave_dVdpos (amplitude p) (multiplicity p) (phase_shift p) (wave_y_shift p);
          p1 = p\<lparr>wave_calculate_energies := Direct V, wave_calculate_dVdpos := Direct dV\<rparr>
      in p1\<lparr>tmp_Vfunc := V, tmp_dVdpfunc := dV\<rparr>)"

function set_degrees :: "bool \<Rightarrow> wavePotential \<Rightarrow> wavePotential"
  and set_radians :: "bool \<Rightarrow> wavePotential \<Rightarrow> wavePotential" where
  "set_degrees degrees p =
     (let p1 = p\<lparr>radians := \<not> degrees\<rparr>
      in if degrees
         then p1\<lparr>wave_calculate_energies := Deg2radOfTmp, wave_calculate_dVdpos := Deg2radOfTmp\<rparr>
         else set_radians (\<not> degrees) p1)"
| "set_radians rad p =
     (let p1 = p\<lparr>radians := rad\<rparr>
      in if rad
         then p1\<lparr>wave_calculate_energies := Direct (tmp_Vfunc p1),
                 wave_calculate_dVdpos := Direct (tmp_dVdpfunc p1)\<rparr>
         else set_degrees (\<not> rad) p1)"
  by pat_completeness auto
termination
  by (relation "measure (\<lambda>a. case a of Inl (d, _) \<Rightarrow> if d then 0 else 1
                                      | Inr (r, _) \<Rightarrow> if r then 0 else 1)") auto

text \<open>
  \<^verbatim>\<open>wavePotential.__init__\<close>: the constants, the base constructor (which compiles the
  evaluators), then \<^verbatim>\<open>self.set_radians(radians)\<close>. The fields written before
  \<open>wave_update_functions\<close> runs are placeholders it overwrites.
\<close>

definition wavePotential_init ::
  "real \<Rightarrow> real \<Rightarrow> real \<Rightarrow> real \<Rightarrow> bool \<Rightarrow> wavePotential" where
  "wavePotential_init A m w Voff rad =
     set_radians rad
       (wave_update_functions
          \<lparr>amplitude = A, multiplicity = m, phase_shift = w, wave_y_shift = Voff,
           radians = False, tmp_Vfunc = (\<lambda>_. 0), tmp_dVdpfunc = (\<lambda>_. 0),
           wave_calculate_energies = Direct (\<lambda>_. 0),
           wave_calculate_dVdpos = Direct (\<lambda>_. 0)\<rparr>)"

text \<open>Calling the evaluator attributes at a position.\<close>

definition wave_energies :: "wavePotential \<Rightarrow> real \<Rightarrow> real" where
  "wave_energies p x =
     (case wave_calculate_energies p of
        Direct f \<Rightarrow> f x
      | Deg2radOfTmp \<Rightarrow> tmp_Vfunc p (deg2rad x))"

definition wave_dVdposs :: "wavePotential \<Rightarrow> real \<Rightarrow> real" where
  "wave_dVdposs p x =
     (case wave_calculate_dVdpos p of
        Direct f \<Rightarrow> f x
      | Deg2radOfTmp \<Rightarrow> tmp_dVdpfunc p (deg2rad x))"

section \<open>Exponentially coupled potentials\<close>

text \<open>
  A constituent potential enters the constants as its closed form \<^verbatim>\<open>Va.V\<close>, a
  symbolic expression in the position: its value and its derivative, both as functions.
\<close>

record sym_expr =
  sym_val :: "real \<Rightarrow> real"
  sym_diff :: "real \<Rightarrow> real"

record exp_constants =
  c_Va :: sym_expr
  c_Vb :: sym_expr
  c_eoffA :: real
  c_eoffB :: real
  c_s :: real
  c_temp :: real

text \<open>
  \<^verbatim>\<open>beta = const.gas_constant / 1000.0 * temp\<close> and
  \<^verbatim>\<open>coupling = -1/(beta*s) * log(exp(-beta*s*Vb-eoffA) + exp(-beta*s*Va-eoffB))\<close>,
  with the constants substituted. Where \<open>beta * s = 0\<close> the source's expression is
  undefined; HOL's total division makes the model \<open>0\<close> there.
\<close>

definition beta :: "exp_constants \<Rightarrow> real" where
  "beta c = gas_constant / 1000 * c_temp c"

definition coupling :: "exp_constants \<Rightarrow> real \<Rightarrow> real" where
  "coupling c r =
     - 1 / (beta c * c_s c)
       * ln (exp (- beta c * c_s c * sym_val (c_Vb c) r - c_eoffA c)
             + exp (- beta c * c_s c * sym_val (c_Va c) r - c_eoffB c))"

text \<open>The derivative of the coupling in the position, as \<^verbatim>\<open>sp.diff\<close> gives it.\<close>

definition coupling_dVdpos :: "exp_constants \<Rightarrow> real \<Rightarrow> real" where
  "coupling_dVdpos c r =
     (exp (- beta c * c_s c * sym_val (c_Vb c) r - c_eoffA c) * sym_diff (c_Vb c) r
      + exp (- beta c * c_s c * sym_val (c_Va c) r - c_eoffB c) * sym_diff (c_Va c) r)
     / (exp (- beta c * c_s c * sym_val (c_Vb c) r - c_eoffA c)
        + exp (- beta c * c_s c * sym_val (c_Va c) r - c_eoffB c))"

text \<open>
  The potential object: its constants, the compiled evaluator pair, and a count of how often
  the pair was compiled (kept by the model to state that a call recompiles).
\<close>

record exponentialCoupledPotentials =
  constants :: exp_constants
  compiled_V :: "real \<Rightarrow> real"
  compiled_dVdpos :: "real \<Rightarrow> real"
  compilations :: nat

text \<open>
  Modelled from the spec: \<^verbatim>\<open>_update_functions\<close> of the base class
  (\<^verbatim>\<open>_potential1DCls\<close>, not among the sources) regenerates the energy and gradient
  evaluators from the closed form and the current constants.
\<close>

definition update_functions :: "exponentialCoupledPotentials \<Rightarrow> exponentialCoupledPotentials" where
  "update_functions p =
     p\<lparr>compiled_V := coupling (constants p),
       compiled_dVdpos := coupling_dVdpos (constants p),
       compilations := Suc (compilations p)\<rparr>"

definition exponentialCoupledPotentials_init ::
  "sym_expr \<Rightarrow> sym_expr \<Rightarrow> real \<Rightarrow> real \<Rightarrow> real \<Rightarrow> real \<Rightarrow> exponentialCoupledPotentials" where
  "exponentialCoupledPotentials_init Va Vb eoffA eoffB s temp =
     update_functions
       \<lparr>constants = \<lparr>c_Va = Va, c_Vb = Vb, c_eoffA = eoffA, c_eoffB = eoffB,
                     c_s = s, c_temp = temp\<rparr>,
        compiled_V = (\<lambda>_. 0), compiled_dVdpos = (\<lambda>_. 0), compilations = 0\<rparr>"

definition set_s :: "real \<Rightarrow> exponentialCoupledPotentials \<Rightarrow> exponentialCoupledPotentials" where
  "set_s s p = update_functions (p\<lparr>constants := (constants p)\<lparr>c_s := s\<rparr>\<rparr>)"

text \<open>\<^verbatim>\<open>eoffs[0]\<close> and \<^verbatim>\<open>eoffs[1]\<close> raise IndexError on a shorter list, before
  anything is updated.\<close>

definition set_Eoff ::
  "real list \<Rightarrow> exponentialCoupledPotentials \<Rightarrow> py_error + exponentialCoupledPotentials" where
  "set_Eoff eoffs p =
     (case eoffs of
        a # b # _ \<Rightarrow>
          Inr (update_functions (p\<lparr>constants := (constants p)\<lparr>c_eoffA := a, c_eoffB := b\<rparr>\<rparr>))
      | _ \<Rightarrow> Inl IndexError)"

text \<open>
  \<^verbatim>\<open>harmonicOscillatorPotential\<close>: the closed form
  \<^verbatim>\<open>0.5 * k * (position - x_shift) ** 2 + y_shift\<close> and its derivative.
\<close>

definition harmonicOscillatorPotential :: "real \<Rightarrow> real \<Rightarrow> real \<Rightarrow> sym_expr" where
  "harmonicOscillatorPotential k x_shift y_shift =
     \<lparr>sym_val = (\<lambda>r. 1 / 2 * k * (r - x_shift) ^ 2 + y_shift),
      sym_diff = (\<lambda>r. k * (r - x_shift))\<rparr>"

section \<open>The EDS system's setters\<close>

subsection \<open>The enveloped potential the system owns\<close>

text \<open>
  \<^verbatim>\<open>edsSystem\<close> declares its potential as \<^verbatim>\<open>pot.envelopedPotential\<close>, the class of
  OneD.py over the N-state base class \<^verbatim>\<open>ND.envelopedPotential\<close>. Its constants are the
  closed forms of the states, the smoothing parameter \<open>s\<close>, the energy offsets
  \<^verbatim>\<open>Eoff_i\<close> and the temperature.
\<close>

record env_constants =
  ec_V_is :: "sym_expr list"
  ec_s :: real
  ec_Eoff_i :: "real list"
  ec_T :: real

text \<open>
  The class's closed form,
  \<^verbatim>\<open>-1 / (beta * s_s) * log(Sum(exp(-beta * s_s * (Vis[i, 0] - Eoffis[i, 0])), (i, 0, N)))\<close>
  with \<^verbatim>\<open>beta = 1/kb*T\<close> (which Python reads as \<open>(1 / kb) * T\<close>) and
  \<^verbatim>\<open>kb = const.gas_constant\<close>, summed over the states and their offsets.
\<close>

definition enveloped_beta :: "env_constants \<Rightarrow> real" where
  "enveloped_beta c = 1 / gas_constant * ec_T c"

definition enveloped_V :: "env_constants \<Rightarrow> real \<Rightarrow> real" where
  "enveloped_V c r =
     - 1 / (enveloped_beta c * ec_s c)
       * ln (sum_list (map (\<lambda>(V, Eoff). exp (- enveloped_beta c * ec_s c * (sym_val V r - Eoff)))
                         (zip (ec_V_is c) (ec_Eoff_i c))))"

text \<open>
  The potential object: its constants now, and the constants that were substituted into the
  closed form when the evaluator pair was last derived
  (\<^verbatim>\<open>self.V = self.V_functional.subs(self.constants)\<close>,
  \<^verbatim>\<open>self.dVdpos = sp.diff(self.V, self.position)\<close>): the pair evaluates the closed form
  at those. The model also counts the derivations.
\<close>

record envelopedPotential =
  ep_constants :: env_constants
  ep_substituted :: env_constants
  ep_compilations :: nat

definition enveloped_ene :: "envelopedPotential \<Rightarrow> real \<Rightarrow> real" where
  "enveloped_ene p r = enveloped_V (ep_substituted p) r"

text \<open>
  Modelled from the spec: the regeneration of the evaluators of
  \<^verbatim>\<open>ND.envelopedPotential\<close>, which is not among the sources. The spec has the
  evaluators regenerated whenever any constant changes; regenerating substitutes the
  current constants into the closed form.
\<close>

definition enveloped_update_functions :: "envelopedPotential \<Rightarrow> envelopedPotential" where
  "enveloped_update_functions p =
     p\<lparr>ep_substituted := ep_constants p, ep_compilations := Suc (ep_compilations p)\<rparr>"

text \<open>
  Modelled from the spec: \<^verbatim>\<open>set_s\<close> of \<^verbatim>\<open>ND.envelopedPotential\<close>, which is not
  among the sources. The spec has the setter methods mutate the constants and trigger the
  re-derivation, and changing the smoothing parameter \<open>s\<close> invalidate and recompile the
  evaluator pair.
\<close>

definition enveloped_set_s :: "real \<Rightarrow> envelopedPotential \<Rightarrow> envelopedPotential" where
  "enveloped_set_s s p =
     enveloped_update_functions (p\<lparr>ep_constants := (ep_constants p)\<lparr>ec_s := s\<rparr>\<rparr>)"

text \<open>
  Modelled from the spec: the assignment of the offsets attribute \<^verbatim>\<open>Eoff_i\<close> of
  \<^verbatim>\<open>ND.envelopedPotential\<close>, which is not among the sources (\<^verbatim>\<open>Eoff_i\<close> is the
  constructor's keyword for the offsets). The spec has changing the energy offsets invalidate
  and recompile the evaluator pair.
\<close>

definition enveloped_assign_Eoff_i :: "real list \<Rightarrow> envelopedPotential \<Rightarrow> envelopedPotential" where
  "enveloped_assign_Eoff_i Eoff p =
     enveloped_update_functions (p\<lparr>ep_constants := (ep_constants p)\<lparr>ec_Eoff_i := Eoff\<rparr>\<rparr>)"

subsection \<open>The system\<close>

text \<open>
  The scratch fields of \<^verbatim>\<open>edsSystem\<close> that its setters read or write, and the
  potential it owns.
\<close>

record edsSystem =
  potential :: envelopedPotential
  currentEdsS :: real
  currentEdsEoffs :: "real list"
  eds_currentPosition :: real
  eds_currentVelocities :: real
  eds_mass :: real
  currentTotPot :: real
  currentTotKin :: real
  currentTotE :: real

text \<open>
  Modelled from the spec: \<^verbatim>\<open>updateSystemProperties\<close> of the base system
  (\<^verbatim>\<open>basic_system.py\<close>, not among the sources) recomputes the aggregate potential,
  kinetic and total energy; the potential energy is the potential's energy evaluator at the
  current position. The kinetic energy is taken as \<open>m v\<^sup>2 / 2\<close>; no theorem below
  depends on it.
\<close>

definition updateSystemProperties :: "edsSystem \<Rightarrow> edsSystem" where
  "updateSystemProperties sys =
     (let pot = enveloped_ene (potential sys) (eds_currentPosition sys);
          kin = 1 / 2 * eds_mass sys * (eds_currentVelocities sys) ^ 2
      in sys\<lparr>currentTotPot := pot, currentTotKin := kin, currentTotE := pot + kin\<rparr>)"

text \<open>
  The property setters of \<^verbatim>\<open>edsSystem\<close>, which \<^verbatim>\<open>set_s\<close> and
  \<^verbatim>\<open>set_Eoff\<close> of the system assign to. The setter of \<^verbatim>\<open>s\<close> stores the value,
  calls \<^verbatim>\<open>self.potential.set_s(self._currentEdsS)\<close> and then
  \<^verbatim>\<open>self.updateSystemProperties()\<close>; the setter of \<^verbatim>\<open>Eoff\<close> stores the value,
  assigns \<^verbatim>\<open>self.potential.Eoff_i = self._currentEdsEoffs\<close> and then calls
  \<^verbatim>\<open>self.updateSystemProperties()\<close>.
\<close>

definition eds_set_s :: "real \<Rightarrow> edsSystem \<Rightarrow> edsSystem" where
  "eds_set_s s sys =
     (let sys1 = sys\<lparr>currentEdsS := s\<rparr>;
          sys2 = sys1\<lparr>potential := enveloped_set_s (currentEdsS sys1) (potential sys1)\<rparr>
      in updateSystemProperties sys2)"

definition eds_set_Eoff :: "real list \<Rightarrow> edsSystem \<Rightarrow> edsSystem" where
  "eds_set_Eoff Eoff sys =
     (let sys1 = sys\<lparr>currentEdsEoffs := Eoff\<rparr>;
          sys2 = sys1\<lparr>potential :=
                       enveloped_assign_Eoff_i (currentEdsEoffs sys1) (potential sys1)\<rparr>
      in updateSystemProperties sys2)"

text \<open>
  The system's default potential: two harmonic states with minima at \<open>2\<close> and \<open>-2\<close>,
  offsets \<open>[0, 0]\<close>, \<open>s = 1\<close>; here at position \<open>1\<close>, its evaluators derived once.
\<close>

definition example_edsSystem :: edsSystem where
  "example_edsSystem =
     \<lparr>potential =
        enveloped_update_functions
          \<lparr>ep_constants = \<lparr>ec_V_is = [harmonicOscillatorPotential 1 2 0,
                                       harmonicOscillatorPotential 1 (- 2) 0],
                           ec_s = 1, ec_Eoff_i = [0, 0], ec_T = 298\<rparr>,
           ep_substituted = \<lparr>ec_V_is = [], ec_s = 0, ec_Eoff_i = [], ec_T = 0\<rparr>,
           ep_compilations = 0\<rparr>,
      currentEdsS = 1, currentEdsEoffs = [0, 0], eds_currentPosition = 1,
      eds_currentVelocities = 0, eds_mass = 1, currentTotPot = 0, currentTotKin = 0,
      currentTotE = 0\<rparr>"

section \<open>Metropolis Monte Carlo sampler\<close>

text \<open>
  \<^verbatim>\<open>maxIterationTillAccept\<close> and \<^verbatim>\<open>convergence_limit\<close> hold an integer or
  \<^verbatim>\<open>np.inf\<close>. The loop compares them with the integer \<^verbatim>\<open>current_iteration\<close>.
\<close>

datatype limit = Fin int | Infinite

fun int_le_limit :: "int \<Rightarrow> limit \<Rightarrow> bool" where
  "int_le_limit i (Fin n) = (i \<le> n)"
| "int_le_limit i Infinite = True"

fun limit_le_int :: "limit \<Rightarrow> int \<Rightarrow> bool" where
  "limit_le_int (Fin n) i = (n \<le> i)"
| "limit_le_int Infinite i = False"

text \<open>A float, \<^verbatim>\<open>np.nan\<close> or \<^verbatim>\<open>None\<close>, as the samplers return them.\<close>

datatype pyval = Float real | NaN | PyNone

text \<open>The fields of \<^verbatim>\<open>system.current_state\<close> the sampler reads.\<close>

record state =
  st_position :: real
  st_temperature :: real
  total_potential_energy :: real

text \<open>
  The system as the sampler sees it: the state snapshot, the two scratch fields the sampler
  writes, and \<^verbatim>\<open>system.potential.ene\<close>.
\<close>

record system =
  current_state :: state
  sys_currentPosition :: real
  sys_currentForce :: real
  potential_ene :: "real \<Rightarrow> real"

text \<open>
  The random numbers one pass of the loop may consume: \<^verbatim>\<open>randint(0, 100)\<close> for the
  sign, \<^verbatim>\<open>randint(low, high)\<close> and \<^verbatim>\<open>rand()\<close> for the size of the shift, and
  \<^verbatim>\<open>rand()\<close> of the acceptance test. They are inputs of the model.
\<close>

record draws =
  sign_draw :: int
  range_draw :: int
  rand_draw :: real
  accept_draw :: real

record metropolisMonteCarloIntegrator =
  minStepSize :: "real option"
  step_size_coefficient :: real
  spaceRange :: "(real \<times> real) option"
  resolution :: real
  fixedStepSize :: "real option"
  posShift :: real
  randomness_factor :: real
  maxIterationTillAccept :: limit
  convergence_limit :: limit
  oldpos :: real
  newPos :: real

definition critInSpaceRange :: "metropolisMonteCarloIntegrator \<Rightarrow> real \<Rightarrow> bool" where
  "critInSpaceRange smp pos =
     (case spaceRange smp of
        None \<Rightarrow> True
      | Some (a, b) \<Rightarrow> pos \<ge> min a b \<and> pos \<le> max a b)"

text \<open>
  \<^verbatim>\<open>random_shift\<close>: the sign, then the size by precedence (fixed step size, ranged
  resolution, free sampling), then the minimal step size. It stores the shift in
  \<^verbatim>\<open>self.posShift\<close>.
\<close>

definition random_shift ::
  "metropolisMonteCarloIntegrator \<Rightarrow> draws \<Rightarrow> metropolisMonteCarloIntegrator" where
  "random_shift smp d =
     (let sign = (if sign_draw d < 50 then - 1 else 1);
          shift = (case fixedStepSize smp of
                     Some f \<Rightarrow> f
                   | None \<Rightarrow>
                       (case spaceRange smp of
                          Some _ \<Rightarrow> \<bar>real_of_int (range_draw d)\<bar> * resolution smp
                        | None \<Rightarrow> step_size_coefficient smp * \<bar>rand_draw d\<bar>))
      in smp\<lparr>posShift :=
               (case minStepSize smp of
                  None \<Rightarrow> sign * shift
                | Some ms \<Rightarrow>
                    if shift < ms then sign * (if shift > ms then shift else ms)
                    else sign * shift)\<rparr>)"

text \<open>
  \<^verbatim>\<open>_default_randomness\<close> divides by \<^verbatim>\<open>gas_constant / 1000.0 * temperature\<close>,
  which raises ZeroDivisionError at temperature \<open>0\<close> (Python floats).
  \<^verbatim>\<open>metropolis_criterion\<close> evaluates it only when the new energy is not lower.
\<close>

definition default_randomness ::
  "metropolisMonteCarloIntegrator \<Rightarrow> real \<Rightarrow> state \<Rightarrow> real \<Rightarrow> py_error + bool" where
  "default_randomness smp ene_new cs u =
     (if gas_constant / 1000 * st_temperature cs = 0 then Inl ZeroDivisionError
      else Inr (randomness_factor smp * u
                  \<le> exp (- 1 / (gas_constant / 1000 * st_temperature cs)
                           * (ene_new - total_potential_energy cs))))"

definition metropolis_criterion ::
  "metropolisMonteCarloIntegrator \<Rightarrow> real \<Rightarrow> state \<Rightarrow> real \<Rightarrow> py_error + bool" where
  "metropolis_criterion smp ene_new cs u =
     (if ene_new < total_potential_energy cs then Inr True
      else default_randomness smp ene_new cs u)"

text \<open>
  One proposal: \<^verbatim>\<open>random_shift\<close>, then the two writes into the system's scratch
  fields, which happen before any test.
\<close>

definition propose ::
  "metropolisMonteCarloIntegrator \<Rightarrow> system \<Rightarrow> draws
     \<Rightarrow> metropolisMonteCarloIntegrator \<times> system" where
  "propose smp sys d =
     (let smp1 = random_shift smp d
      in (smp1, sys\<lparr>sys_currentPosition := oldpos smp1 + posShift smp1,
                     sys_currentForce := posShift smp1\<rparr>))"

text \<open>
  The second disjunct of the loop's test:
  \<^verbatim>\<open>self._critInSpaceRange(system._currentPosition) and self.metropolis_criterion(new_ene, current_state)\<close>.
\<close>

definition criterion_test ::
  "state \<Rightarrow> metropolisMonteCarloIntegrator \<Rightarrow> system \<Rightarrow> draws \<Rightarrow> py_error + bool" where
  "criterion_test cs smp sys d =
     (let new_ene = potential_ene sys (sys_currentPosition sys)
      in if critInSpaceRange smp (sys_currentPosition sys)
         then metropolis_criterion smp new_ene cs (accept_draw d)
         else Inr False)"

text \<open>
  The whole test: \<^verbatim>\<open>self.maxIterationTillAccept <= current_iteration or (...)\<close>.
\<close>

definition break_test ::
  "state \<Rightarrow> metropolisMonteCarloIntegrator \<Rightarrow> system \<Rightarrow> nat \<Rightarrow> draws \<Rightarrow> py_error + bool" where
  "break_test cs smp sys cur d =
     (if limit_le_int (maxIterationTillAccept smp) (int cur) then Inr True
      else criterion_test cs smp sys d)"

text \<open>
  The acceptance loop. The loop may run forever (both limits infinite and every proposal
  rejected), so it takes fuel: one unit per pass, \<open>None\<close> when the fuel runs out.
  \<open>rnd k\<close> are the random numbers of the pass with \<open>current_iteration = k\<close>. The result
  says how the loop ended and gives the sampler, the system and \<open>current_iteration\<close>
  at that point.
\<close>

datatype loop_exit = Broke | GuardFailed | Raised py_error

fun metropolis_loop ::
  "nat \<Rightarrow> (nat \<Rightarrow> draws) \<Rightarrow> state \<Rightarrow> metropolisMonteCarloIntegrator \<Rightarrow> system \<Rightarrow> nat
     \<Rightarrow> (loop_exit \<times> metropolisMonteCarloIntegrator \<times> system \<times> nat) option" where
  "metropolis_loop 0 rnd cs smp sys cur = None"
| "metropolis_loop (Suc fuel) rnd cs smp sys cur =
     (if int_le_limit (int cur) (convergence_limit smp)
         \<and> int_le_limit (int cur) (maxIterationTillAccept smp)
      then (case propose smp sys (rnd cur) of
              (smp1, sys1) \<Rightarrow>
                (case break_test cs smp1 sys1 cur (rnd cur) of
                   Inl e \<Rightarrow> Some (Raised e, smp1, sys1, cur)
                 | Inr True \<Rightarrow> Some (Broke, smp1, sys1, cur)
                 | Inr False \<Rightarrow>
                     if limit_le_int (convergence_limit smp1) (int (Suc cur))
                     then Some (Raised ValueError, smp1, sys1, Suc cur)
                     else metropolis_loop fuel rnd cs smp1 sys1 (Suc cur)))
      else Some (GuardFailed, smp, sys, cur))"

text \<open>
  \<^verbatim>\<open>metropolisMonteCarloIntegrator.step\<close> (with \<^verbatim>\<open>verbose\<close> off). It returns
  the raised error, or the tuple
  \<^verbatim>\<open>(system._currentPosition, np.nan, self.posShift)\<close>; with it the sampler and the system
  as the call leaves them, and the final \<^verbatim>\<open>current_iteration\<close>.
\<close>

definition metropolis_step ::
  "nat \<Rightarrow> (nat \<Rightarrow> draws) \<Rightarrow> metropolisMonteCarloIntegrator \<Rightarrow> system
     \<Rightarrow> ((py_error + real \<times> pyval \<times> real) \<times> metropolisMonteCarloIntegrator \<times> system \<times> nat) option" where
  "metropolis_step fuel rnd smp sys =
     (let cs = current_state sys;
          smp0 = smp\<lparr>oldpos := st_position cs\<rparr>
      in case metropolis_loop fuel rnd cs smp0 sys 0 of
           None \<Rightarrow> None
         | Some (Raised e, smp1, sys1, n) \<Rightarrow> Some (Inl e, smp1, sys1, n)
         | Some (_, smp1, sys1, n) \<Rightarrow>
             Some (Inr (sys_currentPosition sys1, NaN, posShift smp1),
                   smp1\<lparr>newPos := oldpos smp1\<rparr>, sys1, n))"

subsection \<open>Notions used to state the sampler's properties\<close>

text \<open>
  The shift \<^verbatim>\<open>random_shift\<close> stores for given random numbers, the position the step
  proposes with it, and what it means that the criterion (space bound and Metropolis
  criterion) rejects that proposal: the test of the loop evaluates to \<^verbatim>\<open>False\<close>.
  \<open>rejects\<close> is the form the loop meets (the state snapshot and \<^verbatim>\<open>self.oldpos\<close>
  already taken), \<open>rejected\<close> the one for a call of \<^verbatim>\<open>step\<close>.
\<close>

definition shift_of :: "metropolisMonteCarloIntegrator \<Rightarrow> draws \<Rightarrow> real" where
  "shift_of smp d = posShift (random_shift smp d)"

definition rejects ::
  "state \<Rightarrow> metropolisMonteCarloIntegrator \<Rightarrow> system \<Rightarrow> draws \<Rightarrow> bool" where
  "rejects cs smp sys d =
     (criterion_test cs smp (sys\<lparr>sys_currentPosition := oldpos smp + shift_of smp d\<rparr>) d
        = Inr False)"

definition proposal :: "metropolisMonteCarloIntegrator \<Rightarrow> system \<Rightarrow> draws \<Rightarrow> real" where
  "proposal smp sys d = st_position (current_state sys) + shift_of smp d"

definition rejected :: "metropolisMonteCarloIntegrator \<Rightarrow> system \<Rightarrow> draws \<Rightarrow> bool" where
  "rejected smp sys d =
     (criterion_test (current_state sys) smp
        (sys\<lparr>sys_currentPosition := proposal smp sys d\<rparr>) d = Inr False)"

subsection \<open>Concrete samplers and systems\<close>

text \<open>
  A sampler with space range \<open>(0, 1)\<close> and fixed step size \<open>5\<close>: from inside the range
  every proposal leaves it. A sampler with no space range and fixed step size \<open>1\<close>, with
  the constructor's iteration cap and the class's convergence limit. A system on the harmonic
  oscillator \<open>k = 1\<close> at position \<open>x\<close>. Random numbers whose sign alternates.
\<close>

definition bounded_sampler :: "limit \<Rightarrow> limit \<Rightarrow> metropolisMonteCarloIntegrator" where
  "bounded_sampler max_iter conv =
     \<lparr>minStepSize = None, step_size_coefficient = 5, spaceRange = Some (0, 1),
      resolution = 1 / 100, fixedStepSize = Some 5, posShift = 0, randomness_factor = 5 / 4,
      maxIterationTillAccept = max_iter, convergence_limit = conv, oldpos = 0, newPos = 0\<rparr>"

definition free_sampler :: metropolisMonteCarloIntegrator where
  "free_sampler =
     \<lparr>minStepSize = None, step_size_coefficient = 5, spaceRange = None,
      resolution = 1 / 100, fixedStepSize = Some 1, posShift = 0, randomness_factor = 5 / 4,
      maxIterationTillAccept = Fin 10000, convergence_limit = Infinite, oldpos = 0, newPos = 0\<rparr>"

definition harmonic_system :: "real \<Rightarrow> system" where
  "harmonic_system x =
     \<lparr>current_state = \<lparr>st_position = x, st_temperature = 298,
                        total_potential_energy = 1 / 2 * x ^ 2\<rparr>,
      sys_currentPosition = x, sys_currentForce = 0,
      potential_ene = (\<lambda>r. 1 / 2 * r ^ 2)\<rparr>"

definition alternating_draws :: "nat \<Rightarrow> draws" where
  "alternating_draws k =
     \<lparr>sign_draw = (if even k then 10 else 90), range_draw = 0, rand_draw = 0,
      accept_draw = 99 / 100\<rparr>"

section \<open>Langevin samplers\<close>

text \<open>
  \<^verbatim>\<open>langevinIntegrator\<close> and its subclass \<^verbatim>\<open>langevinVelocityIntegrator\<close> share
  the constructor and \<^verbatim>\<open>step\<close>; the subclass overrides \<^verbatim>\<open>update_positon\<close>.
  The attributes the constructor sets to \<^verbatim>\<open>None\<close> are options.
\<close>

datatype langevin_class = PositionLangevin | VelocityLangevin

record langevinIntegrator =
  dt :: real
  gamma :: real
  oldPosition :: "real option"
  first_step :: bool
  R_x :: "real option"
  newForces :: "real option"
  currentPosition :: "real option"
  currentVelocity :: "real option"

definition langevinIntegrator_init :: "real \<Rightarrow> real \<Rightarrow> real option \<Rightarrow> langevinIntegrator" where
  "langevinIntegrator_init dt0 gamma0 old_position =
     \<lparr>dt = dt0, gamma = gamma0, oldPosition = old_position, first_step = True,
      R_x = None, newForces = None, currentPosition = None, currentVelocity = None\<rparr>"

text \<open>
  The system as the Langevin samplers see it: the scratch position and velocity, the
  temperature, the mass, \<^verbatim>\<open>system.potential.force\<close>, the reweighting flag and, when the
  potential has one, \<^verbatim>\<open>system.potential.origPotential.force\<close>.
\<close>

record langevin_system =
  ls_currentPosition :: real
  ls_currentVelocities :: real
  ls_temperature :: real
  ls_mass :: real
  potential_force :: "real \<Rightarrow> real"
  reweighting :: bool
  origPotential_force :: "(real \<Rightarrow> real) option"

text \<open>
  \<^verbatim>\<open>np.sqrt(2 * system.temperature * self.gamma * system.mass / self.dt) * curr_random\<close>:
  the division is one of Python numbers and raises ZeroDivisionError at \<open>dt = 0\<close>. For a
  negative radicand numpy gives NaN, which the model does not have (\<open>sqrt\<close> of HOL is
  then negative); no theorem below depends on that value.
\<close>

definition fluctuation ::
  "langevinIntegrator \<Rightarrow> langevin_system \<Rightarrow> real \<Rightarrow> py_error + real" where
  "fluctuation smp sys curr_random =
     (if dt smp = 0 then Inl ZeroDivisionError
      else Inr (sqrt (2 * ls_temperature sys * gamma smp * ls_mass sys / dt smp) * curr_random))"

text \<open>
  \<^verbatim>\<open>langevinIntegrator.update_positon\<close>: it returns the 3-tuple
  \<^verbatim>\<open>(new_position, None, curr_random)\<close>. The result comes with the sampler as the call
  leaves it, also when it raises.
\<close>

definition update_positon_position ::
  "langevinIntegrator \<Rightarrow> langevin_system \<Rightarrow> real
     \<Rightarrow> (py_error + pyval list) \<times> langevinIntegrator" where
  "update_positon_position smp sys curr_random =
     (case fluctuation smp sys curr_random of
        Inl e \<Rightarrow> (Inl e, smp)
      | Inr rx \<Rightarrow>
          (case (currentPosition smp, oldPosition smp) of
             (Some pos, Some old) \<Rightarrow>
               (let f = - potential_force sys pos;
                    smp1 = smp\<lparr>R_x := Some rx, newForces := Some f\<rparr>
                in if 1 + gamma smp * dt smp / 2 = 0 \<or> ls_mass sys = 0
                   then (Inl ZeroDivisionError, smp1)
                   else (Inr [Float ((1 / (1 + gamma smp * dt smp / 2))
                                      * (2 * pos - old + gamma smp * (dt smp / 2) * old
                                         + ((dt smp) ^ 2 / ls_mass sys) * (rx + f))),
                              PyNone, Float curr_random], smp1))
           | _ \<Rightarrow> (Inl TypeError, smp\<lparr>R_x := Some rx\<rparr>)))"

text \<open>
  \<^verbatim>\<open>langevinVelocityIntegrator.update_positon\<close>: the first call draws a random number
  and computes the force, every call then does the half step of the velocity, the full step
  of the position, a new random number and force, and the last half step. It returns the
  2-tuple \<^verbatim>\<open>(full_step_position, full_step_velocity)\<close>.
\<close>

definition velocity_first_step ::
  "langevinIntegrator \<Rightarrow> langevin_system \<Rightarrow> real \<Rightarrow> real \<Rightarrow> py_error + langevinIntegrator" where
  "velocity_first_step smp sys pos curr_random =
     (if first_step smp
      then (case fluctuation smp sys curr_random of
              Inl e \<Rightarrow> Inl e
            | Inr rx \<Rightarrow>
                Inr (smp\<lparr>R_x := Some rx, newForces := Some (- potential_force sys pos),
                         first_step := False\<rparr>))
      else Inr smp)"

definition update_positon_velocity ::
  "langevinIntegrator \<Rightarrow> langevin_system \<Rightarrow> real \<Rightarrow> real
     \<Rightarrow> (py_error + pyval list) \<times> langevinIntegrator" where
  "update_positon_velocity smp sys random1 random2 =
     (case (currentPosition smp, currentVelocity smp) of
        (Some pos, Some vel) \<Rightarrow>
          (case velocity_first_step smp sys pos random1 of
             Inl e \<Rightarrow> (Inl e, smp)
           | Inr smp1 \<Rightarrow>
               if ls_mass sys = 0 then (Inl ZeroDivisionError, smp1)
               else
                 (case (newForces smp1, R_x smp1) of
                    (Some f, Some rx) \<Rightarrow>
                      (let half_step_velocity =
                             (1 - gamma smp1 * dt smp1 / 2) * vel
                             + dt smp1 / (2 * ls_mass sys) * (f + rx);
                           full_step_position = pos + half_step_velocity * dt smp1
                       in case fluctuation smp1 sys random2 of
                            Inl e \<Rightarrow> (Inl e, smp1)
                          | Inr rx2 \<Rightarrow>
                              (let f2 = - potential_force sys full_step_position;
                                   smp2 = smp1\<lparr>R_x := Some rx2, newForces := Some f2\<rparr>
                               in if 1 + gamma smp2 * dt smp2 / 2 = 0
                                  then (Inl ZeroDivisionError, smp2)
                                  else (Inr [Float full_step_position,
                                             Float ((1 / (1 + gamma smp2 * dt smp2 / 2))
                                                    * (half_step_velocity
                                                       + dt smp2 / (1 * ls_mass sys) * (f2 + rx2)))],
                                        smp2)))
                  | _ \<Rightarrow> (Inl TypeError, smp1)))
      | _ \<Rightarrow> (Inl TypeError, smp))"

definition update_positon ::
  "langevin_class \<Rightarrow> langevinIntegrator \<Rightarrow> langevin_system \<Rightarrow> real \<Rightarrow> real
     \<Rightarrow> (py_error + pyval list) \<times> langevinIntegrator" where
  "update_positon cls smp sys random1 random2 =
     (case cls of
        PositionLangevin \<Rightarrow> update_positon_position smp sys random1
      | VelocityLangevin \<Rightarrow> update_positon_velocity smp sys random1 random2)"

text \<open>
  \<^verbatim>\<open>langevinIntegrator.step\<close> (with \<^verbatim>\<open>verbose\<close> off), which both classes run. The
  assignment \<^verbatim>\<open>new_position, new_velocity, curr_random = self.update_positon(system)\<close>
  unpacks a 3-tuple and raises ValueError on a tuple of any other length. The step returns a
  3-tuple, or a 5-tuple when the system is reweighting.
\<close>

definition langevin_step ::
  "langevin_class \<Rightarrow> langevinIntegrator \<Rightarrow> langevin_system \<Rightarrow> real \<Rightarrow> real
     \<Rightarrow> (py_error + pyval list) \<times> langevinIntegrator" where
  "langevin_step cls smp sys random1 random2 =
     (let pos = ls_currentPosition sys;
          vel = ls_currentVelocities sys;
          smp1 = smp\<lparr>currentPosition := Some pos, currentVelocity := Some vel\<rparr>;
          smp2 = (case oldPosition smp1 of
                    None \<Rightarrow> smp1\<lparr>oldPosition := Some (pos - vel * dt smp1)\<rparr>
                  | Some _ \<Rightarrow> smp1)
      in case update_positon cls smp2 sys random1 random2 of
           (Inl e, smp3) \<Rightarrow> (Inl e, smp3)
         | (Inr [new_position, new_velocity, curr_random], smp3) \<Rightarrow>
             (let smp4 = smp3\<lparr>oldPosition := currentPosition smp3\<rparr>;
                  forces = (case newForces smp4 of None \<Rightarrow> PyNone | Some f \<Rightarrow> Float f)
              in if reweighting sys
                 then (Inr [new_position, new_velocity, forces, curr_random,
                            (case origPotential_force sys of
                               None \<Rightarrow> PyNone
                             | Some g \<Rightarrow> Float (- g pos))], smp4)
                 else (Inr [new_position, new_velocity, forces], smp4))
         | (Inr _, smp3) \<Rightarrow> (Inl ValueError, smp3))"

text \<open>A system on the harmonic oscillator \<open>k = 1\<close> at rest at position \<open>1\<close>.\<close>

definition harmonic_langevin_system :: langevin_system where
  "harmonic_langevin_system =
     \<lparr>ls_currentPosition = 1, ls_currentVelocities = 0, ls_temperature = 298, ls_mass = 1,
      potential_force = (\<lambda>r. r), reweighting = False, origPotential_force = None\<rparr>"

section \<open>Enveloped potential: the gradient routine\<close>

text \<open>
  A numpy value: a scalar (a float, or a 0-d array) or an array of values along its first
  axis. \<^verbatim>\<open>np.sum\<close> without an axis adds all elements and gives a scalar. Iterating
  (\<^verbatim>\<open>iter\<close>, as \<^verbatim>\<open>map\<close> and \<^verbatim>\<open>for\<close> do) goes along the first axis and raises
  TypeError on a scalar.
\<close>

datatype ndarray = Num real | Arr "ndarray list"

fun np_sum :: "ndarray \<Rightarrow> real" where
  "np_sum (Num x) = x"
| "np_sum (Arr xs) = sum_list (map np_sum xs)"

fun np_map :: "(real \<Rightarrow> real) \<Rightarrow> ndarray \<Rightarrow> ndarray" where
  "np_map f (Num x) = Num (f x)"
| "np_map f (Arr xs) = Arr (map (np_map f) xs)"

definition py_iter :: "ndarray \<Rightarrow> py_error + ndarray list" where
  "py_iter a = (case a of Num _ \<Rightarrow> Inl TypeError | Arr xs \<Rightarrow> Inr xs)"

text \<open>
  \<^verbatim>\<open>list(map(f, xs))\<close> and \<^verbatim>\<open>list(map(f, xs, ys))\<close> over sequences already
  iterated: the first call of \<open>f\<close> that raises ends the list, and the shorter sequence
  ends the pairs.
\<close>

fun py_map :: "('a \<Rightarrow> py_error + 'b) \<Rightarrow> 'a list \<Rightarrow> py_error + 'b list" where
  "py_map f [] = Inr []"
| "py_map f (x # xs) =
     (case f x of
        Inl e \<Rightarrow> Inl e
      | Inr z \<Rightarrow> (case py_map f xs of Inl e \<Rightarrow> Inl e | Inr zs \<Rightarrow> Inr (z # zs)))"

fun py_map2 :: "('a \<Rightarrow> 'b \<Rightarrow> py_error + 'c) \<Rightarrow> 'a list \<Rightarrow> 'b list \<Rightarrow> py_error + 'c list" where
  "py_map2 f (x # xs) (y # ys) =
     (case f x y of
        Inl e \<Rightarrow> Inl e
      | Inr z \<Rightarrow> (case py_map2 f xs ys of Inl e \<Rightarrow> Inl e | Inr zs \<Rightarrow> Inr (z # zs)))"
| "py_map2 f _ _ = Inr []"

text \<open>
  An elementwise numpy operation (\<^verbatim>\<open>np.divide\<close>, \<^verbatim>\<open>np.multiply\<close>, \<^verbatim>\<open>-\<close>): a scalar
  combines with every element of an array, two arrays combine element by element and must
  have the same length along every axis (ValueError otherwise; numpy's stretching of axes of
  length one is not modelled).
\<close>

fun np_elementwise :: "(real \<Rightarrow> real \<Rightarrow> real) \<Rightarrow> ndarray \<Rightarrow> ndarray \<Rightarrow> py_error + ndarray"
  and np_elementwise_list ::
    "(real \<Rightarrow> real \<Rightarrow> real) \<Rightarrow> ndarray list \<Rightarrow> ndarray list \<Rightarrow> py_error + ndarray list" where
  "np_elementwise f (Num x) (Num y) = Inr (Num (f x y))"
| "np_elementwise f (Num x) (Arr ys) = Inr (Arr (map (np_map (f x)) ys))"
| "np_elementwise f (Arr xs) (Num y) = Inr (Arr (map (np_map (\<lambda>a. f a y)) xs))"
| "np_elementwise f (Arr xs) (Arr ys) =
     (case np_elementwise_list f xs ys of Inl e \<Rightarrow> Inl e | Inr zs \<Rightarrow> Inr (Arr zs))"
| "np_elementwise_list f [] [] = Inr []"
| "np_elementwise_list f (x # xs) (y # ys) =
     (case np_elementwise f x y of
        Inl e \<Rightarrow> Inl e
      | Inr z \<Rightarrow>
          (case np_elementwise_list f xs ys of Inl e \<Rightarrow> Inl e | Inr zs \<Rightarrow> Inr (z # zs)))"
| "np_elementwise_list f [] (y # ys) = Inl ValueError"
| "np_elementwise_list f (x # xs) [] = Inl ValueError"

text \<open>
  A constituent potential of the enveloped potential, by its methods \<^verbatim>\<open>ene\<close> and
  \<^verbatim>\<open>force\<close> (of the base class, not among the sources): functions from positions to
  values of the same shape.
\<close>

record state_potential =
  sp_ene :: "ndarray \<Rightarrow> ndarray"
  sp_force :: "ndarray \<Rightarrow> ndarray"

text \<open>The inner lambda, \<^verbatim>\<open>1 - np.divide(dimPos, dimPosSum)\<close>.\<close>

definition prefactor :: "ndarray \<Rightarrow> ndarray \<Rightarrow> py_error + ndarray" where
  "prefactor dimPos dimPosSum =
     (case np_elementwise (\<lambda>a b. a / b) dimPos dimPosSum of
        Inl e \<Rightarrow> Inl e
      | Inr q \<Rightarrow> np_elementwise (\<lambda>a b. a - b) (Num 1) q)"

text \<open>
  The outer lambda,
  \<^verbatim>\<open>lambda pos, posSum: list(map(<inner lambda>, pos, posSum))\<close>, and the element of the
  list comprehension for one state,
  \<^verbatim>\<open>list(map(<outer lambda>, Vn_ene, V_Is_posDim_eneSum))\<close>. \<^verbatim>\<open>map\<close> iterates both of
  its arguments.
\<close>

definition prefactors_of_position :: "ndarray \<Rightarrow> ndarray \<Rightarrow> py_error + ndarray" where
  "prefactors_of_position pos posSum =
     (case py_iter pos of
        Inl e \<Rightarrow> Inl e
      | Inr dims \<Rightarrow>
          (case py_iter posSum of
             Inl e \<Rightarrow> Inl e
           | Inr dimSums \<Rightarrow>
               (case py_map2 prefactor dims dimSums of
                  Inl e \<Rightarrow> Inl e
                | Inr r \<Rightarrow> Inr (Arr r))))"

definition prefactors_of_state :: "ndarray \<Rightarrow> ndarray \<Rightarrow> py_error + ndarray" where
  "prefactors_of_state Vn_ene V_Is_posDim_eneSum =
     (case py_iter Vn_ene of
        Inl e \<Rightarrow> Inl e
      | Inr poss \<Rightarrow>
          (case py_iter V_Is_posDim_eneSum of
             Inl e \<Rightarrow> Inl e
           | Inr posSums \<Rightarrow>
               (case py_map2 prefactors_of_position poss posSums of
                  Inl e \<Rightarrow> Inl e
                | Inr r \<Rightarrow> Inr (Arr r))))"

text \<open>
  \<^verbatim>\<open>envelopedPotential._calculate_dvdpos_singlePos\<close>. \<open>position\<close> is the sequence of the
  states' positions that \<^verbatim>\<open>zip(self.V_is, position)\<close> pairs with the state potentials.
  The first line's \<^verbatim>\<open>self.ene(position)\<close> (of the N-dimensional base class, not among
  the sources) is taken to return; its value is not used.

  After the scaled forces, the loops: \<^verbatim>\<open>position[0]\<close> raises IndexError on an empty
  sequence, \<^verbatim>\<open>len(position[0])\<close> raises TypeError on a scalar; the loop variable is
  named \<^verbatim>\<open>position\<close> too, so in the first pass \<^verbatim>\<open>position[0][0]\<close> indexes an
  integer and raises TypeError; with no pass at all the final \<^verbatim>\<open>dhdpos_R.shape\<close> reads an
  attribute a list does not have and raises AttributeError.
\<close>

definition calculate_dvdpos_singlePos ::
  "state_potential list \<Rightarrow> ndarray list \<Rightarrow> py_error + ndarray" where
  "calculate_dvdpos_singlePos V_is position =
     (let V_Is_ene = map (\<lambda>(statePot, state_pos). sp_ene statePot state_pos) (zip V_is position);
          V_Is_dhdpos =
            map (\<lambda>(statePot, state_pos). sp_force statePot state_pos) (zip V_is position);
          V_Is_posDim_eneSum = Num (np_sum (Arr V_Is_ene))
      in case py_map (\<lambda>Vn_ene. prefactors_of_state Vn_ene V_Is_posDim_eneSum) V_Is_ene of
           Inl e \<Rightarrow> Inl e
         | Inr prefactors \<Rightarrow>
             (case np_elementwise (\<lambda>a b. a * b) (Arr prefactors) (Arr V_Is_dhdpos) of
                Inl e \<Rightarrow> Inl e
              | Inr dhdpos_state_scaled \<Rightarrow>
                  (case position of
                     [] \<Rightarrow> Inl IndexError
                   | Num _ # _ \<Rightarrow> Inl TypeError
                   | Arr [] # _ \<Rightarrow> Inl AttributeError
                   | Arr (_ # _) # _ \<Rightarrow> Inl TypeError)))"

text \<open>
  Following the spec's words: the Boltzmann factors \<open>exp (- \<beta> s (V\<^sub>i - Eoff\<^sub>i))\<close> of the
  states, the weight of a state as its factor over the sum of all factors, and the gradient
  as the sum of the states' gradients scaled by their weights. \<open>bs\<close> is the product
  \<open>\<beta> s\<close>.
\<close>

definition boltzmann_factors :: "real \<Rightarrow> real list \<Rightarrow> real list \<Rightarrow> real list" where
  "boltzmann_factors bs Vs Eoffs = map (\<lambda>(V, Eoff). exp (- bs * (V - Eoff))) (zip Vs Eoffs)"

definition spec_weights :: "real \<Rightarrow> real list \<Rightarrow> real list \<Rightarrow> real list" where
  "spec_weights bs Vs Eoffs =
     map (\<lambda>w. w / sum_list (boltzmann_factors bs Vs Eoffs)) (boltzmann_factors bs Vs Eoffs)"

definition spec_gradient :: "real \<Rightarrow> real list \<Rightarrow> real list \<Rightarrow> real list \<Rightarrow> real" where
  "spec_gradient bs Vs Eoffs dVs =
     sum_list (map (\<lambda>(w, dV). w * dV) (zip (spec_weights bs Vs Eoffs) dVs))"

text \<open>
  A harmonic oscillator as a state potential (\<^verbatim>\<open>ene\<close> its closed form, \<^verbatim>\<open>force\<close> the
  derivative of it), applied to every element of a position array.
\<close>

definition harmonic_state :: "real \<Rightarrow> real \<Rightarrow> state_potential" where
  "harmonic_state k x_shift =
     \<lparr>sp_ene = np_map (\<lambda>r. 1 / 2 * k * (r - x_shift) ^ 2),
      sp_force = np_map (\<lambda>r. k * (r - x_shift))\<rparr>"

section \<open>Properties of the potentials\<close>

lemma fold_min_Min: "fold min xs (x::real) = Min (set (x # xs))"
  by (rule Min.set_eq_fold [symmetric])

lemma fold_max_Max: "fold max xs (x::real) = Max (set (x # xs))"
  by (rule Max.set_eq_fold [symmetric])

lemma flatwellPotential_init_fields:
  assumes "flatwellPotential_init x_range ymax ymin = Inr fw"
  shows "x_range \<noteq> [] \<and> x_min fw = Min (set x_range) \<and> x_max fw = Max (set x_range)
         \<and> y_max fw = ymax \<and> y_min fw = ymin"
proof (cases x_range)
  case Nil
  with assms show ?thesis by (simp add: flatwellPotential_init_def)
next
  case (Cons x xs)
  with assms have "fw = \<lparr>x_min = fold min xs x, x_max = fold max xs x, y_max = ymax, y_min = ymin\<rparr>"
    by (simp add: flatwellPotential_init_def)
  with Cons show ?thesis
    by (simp only: fold_min_Min fold_max_Max) simp
qed

text \<open>
  C8. A flat well built from \<open>x_range\<close>, \<open>y_min\<close> and \<open>y_max\<close> has
  \<open>x_min\<close> and \<open>x_max\<close> the least and greatest element of \<open>x_range\<close>; at every
  position \<open>p\<close> its energy is \<open>y_min\<close> when \<open>x_min \<le> p \<le> x_max\<close> and
  \<open>y_max\<close> otherwise, and its force is \<open>+\<infinity>\<close> exactly when \<open>p\<close> is
  \<open>x_min\<close> or \<open>x_max\<close> and \<open>0\<close> at every other position.
\<close>

theorem flatwell_energy_force:
  assumes "flatwellPotential_init x_range ymax ymin = Inr fw"
  shows "x_min fw = Min (set x_range) \<and> x_max fw = Max (set x_range)
         \<and> calculate_energies fw [p] = [if x_min fw \<le> p \<and> p \<le> x_max fw then ymin else ymax]
         \<and> (calculate_dVdpos fw [p] = [PosInf] \<longleftrightarrow> p = x_min fw \<or> p = x_max fw)
         \<and> (calculate_dVdpos fw [p] = [Finite 0] \<longleftrightarrow> p \<noteq> x_min fw \<and> p \<noteq> x_max fw)"
  using flatwellPotential_init_fields [OF assms]
  by (simp add: calculate_energies_def calculate_dVdpos_def)

theorem flatwell_energy_force_witness:
  "flatwellPotential_init [0, 1] 1000 0
     = Inr \<lparr>x_min = 0, x_max = 1, y_max = 1000, y_min = 0\<rparr>
   \<and> calculate_energies \<lparr>x_min = 0, x_max = 1, y_max = 1000, y_min = 0\<rparr> [1 / 2] = [0]
   \<and> calculate_energies \<lparr>x_min = 0, x_max = 1, y_max = 1000, y_min = 0\<rparr> [2] = [1000]
   \<and> calculate_dVdpos \<lparr>x_min = 0, x_max = 1, y_max = 1000, y_min = 0\<rparr> [0] = [PosInf]
   \<and> calculate_dVdpos \<lparr>x_min = 0, x_max = 1, y_max = 1000, y_min = 0\<rparr> [1] = [PosInf]
   \<and> calculate_dVdpos \<lparr>x_min = 0, x_max = 1, y_max = 1000, y_min = 0\<rparr> [1 / 2] = [Finite 0]"
proof -
  have h: "flatwellPotential_init [0, 1] 1000 0
             = Inr \<lparr>x_min = 0, x_max = 1, y_max = 1000, y_min = 0\<rparr>"
    by (simp add: flatwellPotential_init_def)
  show ?thesis
    using h flatwell_energy_force [OF h, of "1 / 2"] flatwell_energy_force [OF h, of 2]
      flatwell_energy_force [OF h, of 0] flatwell_energy_force [OF h, of 1]
    by simp
qed

subsection \<open>The closed-form derivatives\<close>

text \<open>The hand-derived gradients are the derivatives of the closed forms.\<close>

lemma wave_dVdpos_is_derivative:
  "((wave_V A m w Voff) has_real_derivative wave_dVdpos A m w Voff r) (at r)"
  unfolding wave_V_def wave_dVdpos_def
  by (auto intro!: derivative_eq_intros)

lemma coupling_quotient:
  fixes K :: real
  assumes "K \<noteq> 0"
  shows "- 1 / K * (1 / S * (E1 * (- K * db) + E2 * (- K * da))) = (E1 * db + E2 * da) / S"
proof -
  have "E1 * (- K * db) + E2 * (- K * da) = - K * (E1 * db + E2 * da)"
    by (simp add: algebra_simps)
  then have "- 1 / K * (1 / S * (E1 * (- K * db) + E2 * (- K * da)))
               = (- 1 / K * - K) * ((E1 * db + E2 * da) / S)"
    by simp
  also have "- 1 / K * - K = 1"
    using assms by simp
  finally show ?thesis by simp
qed

lemma coupling_dVdpos_is_derivative:
  assumes a: "(sym_val (c_Va c) has_real_derivative sym_diff (c_Va c) r) (at r)"
    and b: "(sym_val (c_Vb c) has_real_derivative sym_diff (c_Vb c) r) (at r)"
    and k: "beta c * c_s c \<noteq> 0"
  shows "((coupling c) has_real_derivative coupling_dVdpos c r) (at r)"
proof -
  let ?K = "beta c * c_s c"
  let ?E1 = "exp (- beta c * c_s c * sym_val (c_Vb c) r - c_eoffA c)"
  let ?E2 = "exp (- beta c * c_s c * sym_val (c_Va c) r - c_eoffB c)"
  have e1: "((\<lambda>r. exp (- beta c * c_s c * sym_val (c_Vb c) r - c_eoffA c))
              has_real_derivative ?E1 * (- ?K * sym_diff (c_Vb c) r)) (at r)"
    using b by (auto intro!: derivative_eq_intros)
  have e2: "((\<lambda>r. exp (- beta c * c_s c * sym_val (c_Va c) r - c_eoffB c))
              has_real_derivative ?E2 * (- ?K * sym_diff (c_Va c) r)) (at r)"
    using a by (auto intro!: derivative_eq_intros)
  have pos: "0 < ?E1 + ?E2"
    by (simp add: add_pos_pos)
  note sum = DERIV_add [OF e1 e2]
  note log = DERIV_chain2 [OF DERIV_ln_divide [OF pos] sum]
  note scaled = DERIV_cmult [OF log, of "- 1 / ?K"]
  have "- 1 / ?K * (1 / (?E1 + ?E2)
          * (?E1 * (- ?K * sym_diff (c_Vb c) r) + ?E2 * (- ?K * sym_diff (c_Va c) r)))
        = coupling_dVdpos c r"
    unfolding coupling_dVdpos_def by (rule coupling_quotient [OF k])
  with scaled show ?thesis
    unfolding coupling_def [abs_def] by simp
qed

subsection \<open>Symmetry of the exponential coupling\<close>

lemma exponential_coupling_force_symmetric:
  "compiled_dVdpos (exponentialCoupledPotentials_init Va Vb eoffA eoffB s temp) r
     = compiled_dVdpos (exponentialCoupledPotentials_init Vb Va eoffB eoffA s temp) r"
  by (simp add: exponentialCoupledPotentials_init_def update_functions_def
      coupling_dVdpos_def beta_def add.commute)

text \<open>
  C7. At every position and for every \<open>s\<close> and temperature, the energy of the
  exponentially coupled potential built from \<open>(Va, Vb, EoffA, EoffB)\<close> equals the
  energy of the one built from \<open>(Vb, Va, EoffB, EoffA)\<close>.
\<close>

theorem exponential_coupling_symmetric:
  "compiled_V (exponentialCoupledPotentials_init Va Vb eoffA eoffB s temp) r
     = compiled_V (exponentialCoupledPotentials_init Vb Va eoffB eoffA s temp) r"
  by (simp add: exponentialCoupledPotentials_init_def update_functions_def
      coupling_def beta_def add.commute)

subsection \<open>The unit toggle of the wave potential\<close>

lemma wavePotential_init_radians:
  "wavePotential_init A m w Voff True =
     \<lparr>amplitude = A, multiplicity = m, phase_shift = w, wave_y_shift = Voff,
      radians = True, tmp_Vfunc = wave_V A m w Voff, tmp_dVdpfunc = wave_dVdpos A m w Voff,
      wave_calculate_energies = Direct (wave_V A m w Voff),
      wave_calculate_dVdpos = Direct (wave_dVdpos A m w Voff)\<rparr>"
  by (simp add: wavePotential_init_def wave_update_functions_def Let_def)

text \<open>The default \<^verbatim>\<open>radians=False\<close> leaves the potential in degrees mode.\<close>

lemma wavePotential_init_degrees:
  "wavePotential_init A m w Voff False =
     \<lparr>amplitude = A, multiplicity = m, phase_shift = w, wave_y_shift = Voff,
      radians = False, tmp_Vfunc = wave_V A m w Voff, tmp_dVdpfunc = wave_dVdpos A m w Voff,
      wave_calculate_energies = Deg2radOfTmp, wave_calculate_dVdpos = Deg2radOfTmp\<rparr>"
  by (simp add: wavePotential_init_def wave_update_functions_def Let_def)

lemma set_degrees_then_set_radians:
  "set_radians True (set_degrees True p) =
     p\<lparr>radians := True, wave_calculate_energies := Direct (tmp_Vfunc p),
       wave_calculate_dVdpos := Direct (tmp_dVdpfunc p)\<rparr>"
  by (simp add: Let_def)

lemma set_radians_then_set_degrees:
  "set_degrees True (set_radians True p) =
     p\<lparr>radians := False, wave_calculate_energies := Deg2radOfTmp,
       wave_calculate_dVdpos := Deg2radOfTmp\<rparr>"
  by (simp add: Let_def)

text \<open>
  C9, as the claim states it, fails: the default construction (\<^verbatim>\<open>radians=False\<close>)
  is in degrees mode, and \<^verbatim>\<open>set_degrees(True); set_radians(True)\<close> ends in radians
  mode. At position \<open>1\<close> the default wave potential evaluates \<open>cos (pi / 180)\<close>, the
  toggled one \<open>cos 1\<close>.
\<close>

theorem wave_roundtrip_default_counterexample:
  "wave_energies (set_radians True (set_degrees True (wavePotential_init 1 1 0 0 False))) 1
     \<noteq> wave_energies (wavePotential_init 1 1 0 0 False) 1"
proof -
  have a: "wave_energies (set_radians True (set_degrees True (wavePotential_init 1 1 0 0 False))) 1
             = cos 1"
    by (simp add: wavePotential_init_degrees wave_energies_def Let_def wave_V_def)
  have b: "wave_energies (wavePotential_init 1 1 0 0 False) 1 = cos (pi / 180)"
    by (simp add: wavePotential_init_degrees wave_energies_def wave_V_def deg2rad_def)
  have "cos (1::real) < cos (pi / 180)"
    by (rule cos_monotone_0_pi) (use pi_ge_two pi_less_4 in auto)
  with a b show ?thesis by simp
qed

text \<open>
  C9, amended. For a wave potential constructed in radians mode
  (\<^verbatim>\<open>radians=True\<close>), \<^verbatim>\<open>set_degrees(True)\<close> followed by
  \<^verbatim>\<open>set_radians(True)\<close> restores the potential exactly: at every position the energy
  and the force evaluators give what the untouched potential gives. For the default
  construction the same holds of the opposite order, \<^verbatim>\<open>set_radians(True)\<close> followed
  by \<^verbatim>\<open>set_degrees(True)\<close>.
\<close>

theorem wave_roundtrip_radians:
  "wave_energies (set_radians True (set_degrees True (wavePotential_init A m w Voff True))) x
     = wave_energies (wavePotential_init A m w Voff True) x
   \<and> wave_dVdposs (set_radians True (set_degrees True (wavePotential_init A m w Voff True))) x
     = wave_dVdposs (wavePotential_init A m w Voff True) x
   \<and> set_radians True (set_degrees True (wavePotential_init A m w Voff True))
     = wavePotential_init A m w Voff True
   \<and> set_degrees True (set_radians True (wavePotential_init A m w Voff False))
     = wavePotential_init A m w Voff False"
  by (simp add: wavePotential_init_radians wavePotential_init_degrees Let_def)

section \<open>Properties of the Metropolis sampler\<close>

subsection \<open>What a pass of the loop reads\<close>

lemma random_shift_eq: "random_shift smp d = smp\<lparr>posShift := shift_of smp d\<rparr>"
  by (simp add: shift_of_def random_shift_def Let_def)

lemma shift_of_posShift [simp]: "shift_of (smp\<lparr>posShift := x\<rparr>) d = shift_of smp d"
  by (simp add: shift_of_def random_shift_def Let_def cong: option.case_cong)

lemma shift_of_oldpos [simp]: "shift_of (smp\<lparr>oldpos := x\<rparr>) d = shift_of smp d"
  by (simp add: shift_of_def random_shift_def Let_def cong: option.case_cong)

lemma random_shift_accept_draw [simp]:
  "random_shift smp (d\<lparr>accept_draw := u\<rparr>) = random_shift smp d"
  by (simp add: random_shift_def Let_def cong: option.case_cong)

lemma propose_eq:
  "propose (smp\<lparr>posShift := x\<rparr>) (sys\<lparr>sys_currentPosition := a, sys_currentForce := b\<rparr>) d
    = (smp\<lparr>posShift := shift_of smp d\<rparr>,
       sys\<lparr>sys_currentPosition := oldpos smp + shift_of smp d,
           sys_currentForce := shift_of smp d\<rparr>)"
  by (simp add: propose_def random_shift_eq Let_def)

lemma criterion_test_posShift [simp]:
  "criterion_test cs (smp\<lparr>posShift := x\<rparr>) sys d = criterion_test cs smp sys d"
  by (simp add: criterion_test_def critInSpaceRange_def metropolis_criterion_def
      default_randomness_def Let_def cong: option.case_cong)

lemma criterion_test_oldpos [simp]:
  "criterion_test cs (smp\<lparr>oldpos := x\<rparr>) sys d = criterion_test cs smp sys d"
  by (simp add: criterion_test_def critInSpaceRange_def metropolis_criterion_def
      default_randomness_def Let_def cong: option.case_cong)

lemma criterion_test_force [simp]:
  "criterion_test cs smp (sys\<lparr>sys_currentPosition := a, sys_currentForce := b\<rparr>) d
     = criterion_test cs smp (sys\<lparr>sys_currentPosition := a\<rparr>) d"
  by (simp add: criterion_test_def Let_def)

lemma rejects_rejected:
  "rejects (current_state sys) (smp\<lparr>oldpos := st_position (current_state sys)\<rparr>) sys d
     = rejected smp sys d"
  by (simp add: rejects_def rejected_def proposal_def)

lemma break_test_not_ValueError: "break_test cs smp sys cur d \<noteq> Inl ValueError"
  by (simp add: break_test_def criterion_test_def metropolis_criterion_def
      default_randomness_def Let_def)

lemma break_test_False:
  "break_test cs (smp\<lparr>posShift := s\<rparr>)
      (sys\<lparr>sys_currentPosition := p, sys_currentForce := s\<rparr>) cur d = Inr False
   \<longleftrightarrow> \<not> limit_le_int (maxIterationTillAccept smp) (int cur)
       \<and> criterion_test cs smp (sys\<lparr>sys_currentPosition := p\<rparr>) d = Inr False"
  by (simp add: break_test_def)

lemma loop_start:
  "metropolis_loop fuel rnd cs smp sys cur
    = metropolis_loop fuel rnd cs (smp\<lparr>posShift := posShift smp\<rparr>)
        (sys\<lparr>sys_currentPosition := sys_currentPosition sys,
            sys_currentForce := sys_currentForce sys\<rparr>) cur"
  by simp

subsection \<open>Runs of rejected proposals\<close>

text \<open>One pass whose proposal the criterion rejects, with the iteration cap not reached.\<close>

lemma loop_step_reject:
  assumes "int_le_limit (int cur) (convergence_limit smp)"
    and "int_le_limit (int cur) (maxIterationTillAccept smp)"
    and "\<not> limit_le_int (maxIterationTillAccept smp) (int cur)"
    and "rejects cs smp sys (rnd cur)"
  shows "metropolis_loop (Suc fuel) rnd cs (smp\<lparr>posShift := x\<rparr>)
           (sys\<lparr>sys_currentPosition := a, sys_currentForce := b\<rparr>) cur
     = (if limit_le_int (convergence_limit smp) (int (Suc cur))
        then Some (Raised ValueError, smp\<lparr>posShift := shift_of smp (rnd cur)\<rparr>,
               sys\<lparr>sys_currentPosition := oldpos smp + shift_of smp (rnd cur),
                   sys_currentForce := shift_of smp (rnd cur)\<rparr>, Suc cur)
        else metropolis_loop fuel rnd cs (smp\<lparr>posShift := shift_of smp (rnd cur)\<rparr>)
               (sys\<lparr>sys_currentPosition := oldpos smp + shift_of smp (rnd cur),
                   sys_currentForce := shift_of smp (rnd cur)\<rparr>) (Suc cur))"
  using assms
  by (simp add: propose_eq break_test_def rejects_def
      del: limit_le_int.simps int_le_limit.simps)

text \<open>
  With a convergence limit \<open>c \<ge> 0\<close> and \<open>n = max 1 c\<close> not above the iteration cap,
  rejections up to \<open>n\<close> end in the error, raised when \<open>current_iteration\<close> is \<open>n\<close>:
  the check \<^verbatim>\<open>current_iteration >= self.convergence_limit\<close> follows the increment, so
  a limit of \<open>0\<close> still lets one pass run.
\<close>

lemma loop_rejecting_raise:
  assumes conv: "convergence_limit smp = Fin c"
    and c0: "0 \<le> c"
    and mx: "int_le_limit (max 1 c) (maxIterationTillAccept smp)"
    and rej: "\<forall>k. cur \<le> k \<and> k < nat (max 1 c) \<longrightarrow> rejects cs smp sys (rnd k)"
    and lt: "cur < nat (max 1 c)"
  shows "metropolis_loop (nat (max 1 c) - cur + extra) rnd cs (smp\<lparr>posShift := x\<rparr>)
           (sys\<lparr>sys_currentPosition := a, sys_currentForce := b\<rparr>) cur
         = Some (Raised ValueError,
                 smp\<lparr>posShift := shift_of smp (rnd (nat (max 1 c) - 1))\<rparr>,
                 sys\<lparr>sys_currentPosition := oldpos smp + shift_of smp (rnd (nat (max 1 c) - 1)),
                     sys_currentForce := shift_of smp (rnd (nat (max 1 c) - 1))\<rparr>,
                 nat (max 1 c))"
  using rej lt
proof (induction "nat (max 1 c) - cur" arbitrary: cur x a b)
  case 0
  then show ?case by simp
next
  case (Suc d)
  let ?n = "nat (max 1 c)"
  have fuel: "?n - cur + extra = Suc (d + extra)"
    using Suc.hyps(2) by simp
  have g1: "int_le_limit (int cur) (convergence_limit smp)"
    using conv c0 Suc.prems(2) by simp
  have g2: "int_le_limit (int cur) (maxIterationTillAccept smp)"
    using mx Suc.prems(2) by (cases "maxIterationTillAccept smp") auto
  have g3: "\<not> limit_le_int (maxIterationTillAccept smp) (int cur)"
    using mx Suc.prems(2) by (cases "maxIterationTillAccept smp") auto
  have g4: "rejects cs smp sys (rnd cur)"
    using Suc.prems by simp
  note step = loop_step_reject [where rnd = rnd and cur = cur and fuel = "d + extra"
      and x = x and a = a and b = b, OF g1 g2 g3 g4]
  show ?case
  proof (cases "Suc cur = ?n")
    case True
    then have "c \<le> int (Suc cur)"
      by linarith
    then have "limit_le_int (convergence_limit smp) (int (Suc cur))"
      using conv by simp
    moreover have "?n - 1 = cur"
      using True by simp
    ultimately show ?thesis
      using step True by (simp only: fuel if_True)
  next
    case False
    then have lt': "Suc cur < ?n"
      using Suc.prems(2) by simp
    then have nr: "\<not> limit_le_int (convergence_limit smp) (int (Suc cur))"
      using conv by simp
    have d: "d = ?n - Suc cur"
      using Suc.hyps(2) by simp
    have rej': "\<forall>k. Suc cur \<le> k \<and> k < ?n \<longrightarrow> rejects cs smp sys (rnd k)"
      using Suc.prems(1) by simp
    have "metropolis_loop (?n - Suc cur + extra) rnd cs
            (smp\<lparr>posShift := shift_of smp (rnd cur)\<rparr>)
            (sys\<lparr>sys_currentPosition := oldpos smp + shift_of smp (rnd cur),
                sys_currentForce := shift_of smp (rnd cur)\<rparr>) (Suc cur)
         = Some (Raised ValueError, smp\<lparr>posShift := shift_of smp (rnd (?n - 1))\<rparr>,
                 sys\<lparr>sys_currentPosition := oldpos smp + shift_of smp (rnd (?n - 1)),
                     sys_currentForce := shift_of smp (rnd (?n - 1))\<rparr>, ?n)"
      by (rule Suc.hyps(1) [OF d rej' lt'])
    then show ?thesis
      using step nr d by (simp only: fuel if_False)
  qed
qed

text \<open>
  With the iteration cap \<open>m\<close> below the convergence limit, rejections up to \<open>m\<close> end
  in the forced break of the pass with \<open>current_iteration = m\<close>.
\<close>

lemma loop_rejecting_forced:
  assumes mx: "maxIterationTillAccept smp = Fin m"
    and conv: "\<not> limit_le_int (convergence_limit smp) m"
    and rej: "\<forall>k. cur \<le> k \<and> k < nat m \<longrightarrow> rejects cs smp sys (rnd k)"
    and le: "cur \<le> nat m"
    and m0: "0 \<le> m"
  shows "metropolis_loop (Suc (nat m - cur + extra)) rnd cs (smp\<lparr>posShift := x\<rparr>)
           (sys\<lparr>sys_currentPosition := a, sys_currentForce := b\<rparr>) cur
         = Some (Broke, smp\<lparr>posShift := shift_of smp (rnd (nat m))\<rparr>,
                 sys\<lparr>sys_currentPosition := oldpos smp + shift_of smp (rnd (nat m)),
                     sys_currentForce := shift_of smp (rnd (nat m))\<rparr>, nat m)"
  using rej le
proof (induction "nat m - cur" arbitrary: cur x a b)
  case 0
  then have eq: "cur = nat m"
    by simp
  have g1: "int_le_limit (int cur) (convergence_limit smp)"
    using conv eq m0 by (cases "convergence_limit smp") auto
  have g2: "int_le_limit (int cur) (maxIterationTillAccept smp)"
    using mx eq m0 by simp
  have g3: "limit_le_int (maxIterationTillAccept smp) (int cur)"
    using mx eq m0 by simp
  show ?case
    using g1 g2 g3 eq
    by (simp add: propose_eq break_test_def del: int_le_limit.simps limit_le_int.simps)
next
  case (Suc d)
  have lt: "cur < nat m"
    using Suc.hyps(2) by simp
  have fuel: "Suc (nat m - cur + extra) = Suc (Suc (d + extra))"
    using Suc.hyps(2) by simp
  have g1: "int_le_limit (int cur) (convergence_limit smp)"
    using conv lt by (cases "convergence_limit smp") auto
  have g2: "int_le_limit (int cur) (maxIterationTillAccept smp)"
    using mx lt by simp
  have g3: "\<not> limit_le_int (maxIterationTillAccept smp) (int cur)"
    using mx lt by simp
  have g4: "rejects cs smp sys (rnd cur)"
    using Suc.prems lt by simp
  have nr: "\<not> limit_le_int (convergence_limit smp) (int (Suc cur))"
    using conv lt by (cases "convergence_limit smp") auto
  note step = loop_step_reject [where rnd = rnd and cur = cur and fuel = "Suc (d + extra)"
      and x = x and a = a and b = b, OF g1 g2 g3 g4]
  have d: "d = nat m - Suc cur"
    using Suc.hyps(2) by simp
  have rej': "\<forall>k. Suc cur \<le> k \<and> k < nat m \<longrightarrow> rejects cs smp sys (rnd k)"
    using Suc.prems(1) by simp
  have le': "Suc cur \<le> nat m"
    using lt by simp
  have ih: "metropolis_loop (Suc (nat m - Suc cur + extra)) rnd cs
              (smp\<lparr>posShift := shift_of smp (rnd cur)\<rparr>)
              (sys\<lparr>sys_currentPosition := oldpos smp + shift_of smp (rnd cur),
                  sys_currentForce := shift_of smp (rnd cur)\<rparr>) (Suc cur)
         = Some (Broke, smp\<lparr>posShift := shift_of smp (rnd (nat m))\<rparr>,
                 sys\<lparr>sys_currentPosition := oldpos smp + shift_of smp (rnd (nat m)),
                     sys_currentForce := shift_of smp (rnd (nat m))\<rparr>, nat m)"
    by (rule Suc.hyps(1) [OF d rej' le'])
  show ?case
    using step nr ih d by (simp only: fuel if_False)
qed

text \<open>
  Whenever the loop ends in the non-convergence error, the last pass proposed a position
  that the criterion rejected, and the sampler and the system hold that proposal.
\<close>

lemma loop_raise_inv:
  "metropolis_loop fuel rnd cs (smp\<lparr>posShift := x\<rparr>)
      (sys\<lparr>sys_currentPosition := a, sys_currentForce := b\<rparr>) cur
     = Some (Raised ValueError, smp', sys', n) \<Longrightarrow>
   cur < n
   \<and> smp' = smp\<lparr>posShift := shift_of smp (rnd (n - 1))\<rparr>
   \<and> sys' = sys\<lparr>sys_currentPosition := oldpos smp + shift_of smp (rnd (n - 1)),
                 sys_currentForce := shift_of smp (rnd (n - 1))\<rparr>
   \<and> rejects cs smp sys (rnd (n - 1))
   \<and> limit_le_int (convergence_limit smp) (int n)"
proof (induction fuel arbitrary: x a b cur)
  case 0
  then show ?case by simp
next
  case (Suc fuel)
  let ?s = "shift_of smp (rnd cur)"
  let ?smp1 = "smp\<lparr>posShift := ?s\<rparr>"
  let ?sys1 = "sys\<lparr>sys_currentPosition := oldpos smp + ?s, sys_currentForce := ?s\<rparr>"
  from Suc.prems have guard: "int_le_limit (int cur) (convergence_limit smp)
      \<and> int_le_limit (int cur) (maxIterationTillAccept smp)"
    by (simp split: if_splits del: int_le_limit.simps)
  show ?case
  proof (cases "break_test cs ?smp1 ?sys1 cur (rnd cur)")
    case (Inl e)
    with Suc.prems guard have "e = ValueError"
      by (simp add: propose_eq del: int_le_limit.simps)
    with Inl show ?thesis
      using break_test_not_ValueError by blast
  next
    case (Inr acc)
    show ?thesis
    proof (cases acc)
      case True
      with Inr Suc.prems guard show ?thesis
        by (simp add: propose_eq del: int_le_limit.simps)
    next
      case False
      with Inr have bt: "break_test cs ?smp1 ?sys1 cur (rnd cur) = Inr False"
        by simp
      then have rej: "rejects cs smp sys (rnd cur)"
        by (simp add: break_test_False rejects_def)
      show ?thesis
      proof (cases "limit_le_int (convergence_limit smp) (int (Suc cur))")
        case True
        with bt Suc.prems guard rej show ?thesis
          by (simp add: propose_eq del: int_le_limit.simps limit_le_int.simps) auto
      next
        case False
        with bt Suc.prems guard have
          "metropolis_loop fuel rnd cs ?smp1 ?sys1 (Suc cur)
             = Some (Raised ValueError, smp', sys', n)"
          by (simp add: propose_eq del: int_le_limit.simps limit_le_int.simps)
        from Suc.IH [OF this] show ?thesis
          by simp
      qed
    qed
  qed
qed

text \<open>
  Whenever the loop breaks, by the criterion or by the iteration cap, the sampler and the
  system hold the proposal of the pass that broke.
\<close>

lemma loop_break_inv:
  "metropolis_loop fuel rnd cs (smp\<lparr>posShift := x\<rparr>)
      (sys\<lparr>sys_currentPosition := a, sys_currentForce := b\<rparr>) cur
     = Some (Broke, smp', sys', n) \<Longrightarrow>
   cur \<le> n
   \<and> smp' = smp\<lparr>posShift := shift_of smp (rnd n)\<rparr>
   \<and> sys' = sys\<lparr>sys_currentPosition := oldpos smp + shift_of smp (rnd n),
                 sys_currentForce := shift_of smp (rnd n)\<rparr>"
proof (induction fuel arbitrary: x a b cur)
  case 0
  then show ?case by simp
next
  case (Suc fuel)
  let ?s = "shift_of smp (rnd cur)"
  let ?smp1 = "smp\<lparr>posShift := ?s\<rparr>"
  let ?sys1 = "sys\<lparr>sys_currentPosition := oldpos smp + ?s, sys_currentForce := ?s\<rparr>"
  from Suc.prems have guard: "int_le_limit (int cur) (convergence_limit smp)
      \<and> int_le_limit (int cur) (maxIterationTillAccept smp)"
    by (simp split: if_splits del: int_le_limit.simps)
  show ?case
  proof (cases "break_test cs ?smp1 ?sys1 cur (rnd cur)")
    case (Inl e)
    with Suc.prems guard show ?thesis
      by (simp add: propose_eq del: int_le_limit.simps)
  next
    case (Inr acc)
    show ?thesis
    proof (cases acc)
      case True
      with Inr Suc.prems guard show ?thesis
        by (simp add: propose_eq del: int_le_limit.simps) auto
    next
      case False
      with Inr have bt: "break_test cs ?smp1 ?sys1 cur (rnd cur) = Inr False"
        by simp
      show ?thesis
      proof (cases "limit_le_int (convergence_limit smp) (int (Suc cur))")
        case True
        with bt Suc.prems guard show ?thesis
          by (simp add: propose_eq del: int_le_limit.simps limit_le_int.simps)
      next
        case False
        with bt Suc.prems guard have
          "metropolis_loop fuel rnd cs ?smp1 ?sys1 (Suc cur) = Some (Broke, smp', sys', n)"
          by (simp add: propose_eq del: int_le_limit.simps limit_le_int.simps)
        from Suc.IH [OF this] show ?thesis
          by simp
      qed
    qed
  qed
qed

subsection \<open>The concrete samplers\<close>

lemma shift_bounded [simp]:
  "shift_of (bounded_sampler a b) (alternating_draws k) = (if even k then - 5 else 5)"
  by (simp add: shift_of_def random_shift_def bounded_sampler_def alternating_draws_def)

lemma rejected_bounded [simp]:
  "rejected (bounded_sampler a b) (harmonic_system (1 / 2)) (alternating_draws k)"
proof -
  have "\<not> critInSpaceRange (bounded_sampler a b)
            (1 / 2 + shift_of (bounded_sampler a b) (alternating_draws k))"
    by (simp add: critInSpaceRange_def) (simp add: bounded_sampler_def)
  then show ?thesis
    by (simp add: rejected_def proposal_def criterion_test_def harmonic_system_def
        del: shift_bounded)
qed

subsection \<open>Non-convergence\<close>

text \<open>
  C3, as the claim states it, fails: with convergence limit \<open>5\<close> and iteration cap \<open>2\<close>
  every proposal drawn is rejected, and the step returns the third proposal, \<open>-9/2\<close>, as
  if it had been accepted.
\<close>

theorem metropolis_nonconvergence_counterexample:
  "rejected (bounded_sampler (Fin 2) (Fin 5)) (harmonic_system (1 / 2)) (alternating_draws 0)
   \<and> rejected (bounded_sampler (Fin 2) (Fin 5)) (harmonic_system (1 / 2)) (alternating_draws 1)
   \<and> rejected (bounded_sampler (Fin 2) (Fin 5)) (harmonic_system (1 / 2)) (alternating_draws 2)
   \<and> metropolis_step 10 alternating_draws (bounded_sampler (Fin 2) (Fin 5))
         (harmonic_system (1 / 2))
       = Some (Inr (- 9 / 2, NaN, - 5),
               (bounded_sampler (Fin 2) (Fin 5))
                 \<lparr>oldpos := 1 / 2, posShift := - 5, newPos := 1 / 2\<rparr>,
               (harmonic_system (1 / 2))
                 \<lparr>sys_currentPosition := - 9 / 2, sys_currentForce := - 5\<rparr>, 2)"
  apply (simp add: metropolis_step_def Let_def)
  apply (simp add: eval_nat_numeral propose_def random_shift_def break_test_def
      criterion_test_def critInSpaceRange_def bounded_sampler_def harmonic_system_def
      alternating_draws_def)
  done

text \<open>
  C3, amended. For every finite convergence limit \<open>c \<ge> 0\<close>, with \<open>n = max 1 c\<close> not
  above \<^verbatim>\<open>maxIterationTillAccept\<close> (which may be infinite): if the criterion rejects
  each of the first \<open>n\<close> proposals, the step draws exactly these \<open>n\<close> proposals and
  ends by raising the non-convergence error, with \<open>current_iteration = n\<close> (the limit
  itself for \<open>c \<ge> 1\<close>, one pass for \<open>c = 0\<close>); it neither runs on nor returns a
  position. Fuel \<open>n\<close> is enough for the loop.
\<close>

theorem metropolis_nonconvergence_raises:
  assumes conv: "convergence_limit smp = Fin c"
    and c0: "0 \<le> c"
    and mx: "int_le_limit (max 1 c) (maxIterationTillAccept smp)"
    and rej: "\<forall>k < nat (max 1 c). rejected smp sys (rnd k)"
    and fuel: "nat (max 1 c) \<le> fuel"
  shows "metropolis_step fuel rnd smp sys =
           Some (Inl ValueError,
                 smp\<lparr>oldpos := st_position (current_state sys),
                     posShift := shift_of smp (rnd (nat (max 1 c) - 1))\<rparr>,
                 sys\<lparr>sys_currentPosition := proposal smp sys (rnd (nat (max 1 c) - 1)),
                     sys_currentForce := shift_of smp (rnd (nat (max 1 c) - 1))\<rparr>,
                 nat (max 1 c))"
proof -
  let ?cs = "current_state sys"
  let ?smp0 = "smp\<lparr>oldpos := st_position ?cs\<rparr>"
  let ?n = "nat (max 1 c)"
  obtain extra where f: "fuel = ?n - 0 + extra"
    using fuel by (metis add.commute le_Suc_ex minus_nat.diff_0)
  have conv0: "convergence_limit ?smp0 = Fin c"
    using conv by simp
  have mx0: "int_le_limit (max 1 c) (maxIterationTillAccept ?smp0)"
    using mx by simp
  have rej0: "\<forall>k. 0 \<le> k \<and> k < ?n \<longrightarrow> rejects ?cs ?smp0 sys (rnd k)"
    using rej by (simp add: rejects_rejected)
  have lt: "0 < ?n"
    by simp
  have "metropolis_loop fuel rnd ?cs ?smp0 sys 0
          = Some (Raised ValueError, ?smp0\<lparr>posShift := shift_of ?smp0 (rnd (?n - 1))\<rparr>,
                 sys\<lparr>sys_currentPosition := oldpos ?smp0 + shift_of ?smp0 (rnd (?n - 1)),
                     sys_currentForce := shift_of ?smp0 (rnd (?n - 1))\<rparr>, ?n)"
    unfolding f
    by (subst loop_start) (rule loop_rejecting_raise [OF conv0 c0 mx0 rej0 lt])
  then show ?thesis
    by (simp add: metropolis_step_def Let_def proposal_def)
qed

text \<open>
  The theorem at limit \<open>2\<close> under the constructor's cap \<open>10000\<close> (two proposals, then
  the error), and at limit \<open>0\<close> with the cap disabled (one proposal, then the error).
\<close>

theorem metropolis_nonconvergence_raises_witness:
  "metropolis_step 2 alternating_draws (bounded_sampler (Fin 10000) (Fin 2))
       (harmonic_system (1 / 2))
     = Some (Inl ValueError,
             (bounded_sampler (Fin 10000) (Fin 2))\<lparr>oldpos := 1 / 2, posShift := 5\<rparr>,
             (harmonic_system (1 / 2))\<lparr>sys_currentPosition := 11 / 2, sys_currentForce := 5\<rparr>,
             2)
   \<and> metropolis_step 1 alternating_draws (bounded_sampler Infinite (Fin 0))
         (harmonic_system (1 / 2))
       = Some (Inl ValueError,
               (bounded_sampler Infinite (Fin 0))\<lparr>oldpos := 1 / 2, posShift := - 5\<rparr>,
               (harmonic_system (1 / 2))
                 \<lparr>sys_currentPosition := - 9 / 2, sys_currentForce := - 5\<rparr>,
               1)"
proof -
  have a: "metropolis_step 2 alternating_draws (bounded_sampler (Fin 10000) (Fin 2))
             (harmonic_system (1 / 2))
           = Some (Inl ValueError,
                   (bounded_sampler (Fin 10000) (Fin 2))\<lparr>oldpos := 1 / 2, posShift := 5\<rparr>,
                   (harmonic_system (1 / 2))
                     \<lparr>sys_currentPosition := 11 / 2, sys_currentForce := 5\<rparr>, 2)"
    using metropolis_nonconvergence_raises [of "bounded_sampler (Fin 10000) (Fin 2)" 2
        "harmonic_system (1 / 2)" alternating_draws 2]
    by (simp add: proposal_def) (simp add: bounded_sampler_def harmonic_system_def)
  have b: "metropolis_step 1 alternating_draws (bounded_sampler Infinite (Fin 0))
             (harmonic_system (1 / 2))
           = Some (Inl ValueError,
                   (bounded_sampler Infinite (Fin 0))\<lparr>oldpos := 1 / 2, posShift := - 5\<rparr>,
                   (harmonic_system (1 / 2))
                     \<lparr>sys_currentPosition := - 9 / 2, sys_currentForce := - 5\<rparr>, 1)"
    using metropolis_nonconvergence_raises [of "bounded_sampler Infinite (Fin 0)" 0
        "harmonic_system (1 / 2)" alternating_draws 1]
    by (simp add: proposal_def) (simp add: bounded_sampler_def harmonic_system_def)
  from a b show ?thesis
    by simp
qed

subsection \<open>Acceptance of a lower energy\<close>

text \<open>
  C4. In a pass of the loop (the loop's condition holds at \<open>current_iteration = cur\<close>),
  when the proposed position satisfies the space bound (or none is set) and its energy is
  strictly below the current total potential energy, the Metropolis criterion is true for
  every random draw \<open>v\<close>, and the loop breaks in that pass with that proposal, whatever
  the draws \<open>u\<close> of the acceptance test are.
\<close>

theorem metropolis_lower_energy_accepted:
  assumes g1: "int_le_limit (int cur) (convergence_limit smp)"
    and g2: "int_le_limit (int cur) (maxIterationTillAccept smp)"
    and p: "propose smp sys (rnd cur) = (smp1, sys1)"
    and inr: "critInSpaceRange smp1 (sys_currentPosition sys1)"
    and low: "potential_ene sys1 (sys_currentPosition sys1) < total_potential_energy cs"
  shows "metropolis_criterion smp1 (potential_ene sys1 (sys_currentPosition sys1)) cs v
           = Inr True
         \<and> metropolis_loop (Suc fuel) (\<lambda>k. (rnd k)\<lparr>accept_draw := u k\<rparr>) cs smp sys cur
             = Some (Broke, smp1, sys1, cur)"
proof -
  have crit: "\<And>w. metropolis_criterion smp1 (potential_ene sys1 (sys_currentPosition sys1)) cs w
                 = Inr True"
    using low by (simp add: metropolis_criterion_def)
  have p': "propose smp sys ((rnd cur)\<lparr>accept_draw := u cur\<rparr>) = (smp1, sys1)"
    using p by (simp add: propose_def)
  have "break_test cs smp1 sys1 cur ((rnd cur)\<lparr>accept_draw := u cur\<rparr>) = Inr True"
    using inr crit by (simp add: break_test_def criterion_test_def Let_def)
  then show ?thesis
    using crit g1 g2 p' by (simp del: int_le_limit.simps)
qed

theorem metropolis_lower_energy_accepted_witness:
  "metropolis_criterion (free_sampler\<lparr>oldpos := 2, posShift := - 1\<rparr>) (1 / 2)
       (current_state (harmonic_system 2)) 1 = Inr True
   \<and> metropolis_loop (Suc 0) (\<lambda>k. (alternating_draws k)\<lparr>accept_draw := 1\<rparr>)
         (current_state (harmonic_system 2)) (free_sampler\<lparr>oldpos := 2\<rparr>) (harmonic_system 2) 0
       = Some (Broke, free_sampler\<lparr>oldpos := 2, posShift := - 1\<rparr>,
               (harmonic_system 2)\<lparr>sys_currentPosition := 1, sys_currentForce := - 1\<rparr>, 0)"
proof -
  have p: "propose (free_sampler\<lparr>oldpos := 2\<rparr>) (harmonic_system 2) (alternating_draws 0)
             = (free_sampler\<lparr>oldpos := 2, posShift := - 1\<rparr>,
                (harmonic_system 2)\<lparr>sys_currentPosition := 1, sys_currentForce := - 1\<rparr>)"
    by (simp add: propose_def random_shift_def free_sampler_def alternating_draws_def)
  have g1: "int_le_limit (int 0) (convergence_limit (free_sampler\<lparr>oldpos := 2\<rparr>))"
    by (simp add: free_sampler_def)
  have g2: "int_le_limit (int 0) (maxIterationTillAccept (free_sampler\<lparr>oldpos := 2\<rparr>))"
    by (simp add: free_sampler_def)
  have inr: "critInSpaceRange (free_sampler\<lparr>oldpos := 2, posShift := - 1\<rparr>)
               (sys_currentPosition
                  ((harmonic_system 2)\<lparr>sys_currentPosition := 1, sys_currentForce := - 1\<rparr>))"
    by (simp add: critInSpaceRange_def free_sampler_def)
  have low: "potential_ene
               ((harmonic_system 2)\<lparr>sys_currentPosition := 1, sys_currentForce := - 1\<rparr>)
               (sys_currentPosition
                  ((harmonic_system 2)\<lparr>sys_currentPosition := 1, sys_currentForce := - 1\<rparr>))
             < total_potential_energy (current_state (harmonic_system 2))"
    by (simp add: harmonic_system_def)
  show ?thesis
    using metropolis_lower_energy_accepted [where rnd = alternating_draws and cur = 0
        and v = 1 and fuel = 0 and u = "\<lambda>_. 1", OF g1 g2 p inr low]
    by (simp add: harmonic_system_def)
qed

subsection \<open>Forced acceptance\<close>

text \<open>
  C5, as the claim states it, fails: with iteration cap \<open>3\<close> and convergence limit \<open>3\<close>
  three proposals are rejected, \<open>current_iteration\<close> reaches the cap, and the step raises
  the non-convergence error instead of emitting a position.
\<close>

theorem metropolis_forced_acceptance_counterexample:
  "rejected (bounded_sampler (Fin 3) (Fin 3)) (harmonic_system (1 / 2)) (alternating_draws 0)
   \<and> rejected (bounded_sampler (Fin 3) (Fin 3)) (harmonic_system (1 / 2)) (alternating_draws 1)
   \<and> rejected (bounded_sampler (Fin 3) (Fin 3)) (harmonic_system (1 / 2)) (alternating_draws 2)
   \<and> metropolis_step 10 alternating_draws (bounded_sampler (Fin 3) (Fin 3))
         (harmonic_system (1 / 2))
       = Some (Inl ValueError,
               (bounded_sampler (Fin 3) (Fin 3))\<lparr>oldpos := 1 / 2, posShift := - 5\<rparr>,
               (harmonic_system (1 / 2))
                 \<lparr>sys_currentPosition := - 9 / 2, sys_currentForce := - 5\<rparr>, 3)"
  apply (simp add: metropolis_step_def Let_def)
  apply (simp add: eval_nat_numeral propose_def random_shift_def break_test_def
      criterion_test_def critInSpaceRange_def bounded_sampler_def harmonic_system_def
      alternating_draws_def)
  done

text \<open>
  C5, amended. When \<^verbatim>\<open>maxIterationTillAccept\<close> is \<open>m \<ge> 0\<close> and lies below the
  convergence limit (which may be infinite), and the criterion rejects each of the first
  \<open>m\<close> proposals, the step stops in the next pass and emits the proposal of that pass,
  the old position plus the last drawn shift; the criterion is not consulted for it.
  (Fuel above \<open>m\<close> is enough for the loop.)
\<close>

theorem metropolis_forced_acceptance:
  assumes mx: "maxIterationTillAccept smp = Fin m"
    and m0: "0 \<le> m"
    and conv: "\<not> limit_le_int (convergence_limit smp) m"
    and rej: "\<forall>k < nat m. rejected smp sys (rnd k)"
    and fuel: "nat m < fuel"
  shows "metropolis_step fuel rnd smp sys =
           Some (Inr (proposal smp sys (rnd (nat m)), NaN, shift_of smp (rnd (nat m))),
                 smp\<lparr>oldpos := st_position (current_state sys),
                     posShift := shift_of smp (rnd (nat m)),
                     newPos := st_position (current_state sys)\<rparr>,
                 sys\<lparr>sys_currentPosition := proposal smp sys (rnd (nat m)),
                     sys_currentForce := shift_of smp (rnd (nat m))\<rparr>,
                 nat m)"
proof -
  let ?cs = "current_state sys"
  let ?smp0 = "smp\<lparr>oldpos := st_position ?cs\<rparr>"
  obtain extra where f: "fuel = Suc (nat m - 0 + extra)"
    using fuel by (metis add.commute add_Suc_right less_iff_Suc_add minus_nat.diff_0)
  have mx0: "maxIterationTillAccept ?smp0 = Fin m"
    using mx by simp
  have conv0: "\<not> limit_le_int (convergence_limit ?smp0) m"
    using conv by simp
  have rej0: "\<forall>k. 0 \<le> k \<and> k < nat m \<longrightarrow> rejects ?cs ?smp0 sys (rnd k)"
    using rej by (simp add: rejects_rejected)
  have "metropolis_loop fuel rnd ?cs ?smp0 sys 0
          = Some (Broke, ?smp0\<lparr>posShift := shift_of ?smp0 (rnd (nat m))\<rparr>,
                 sys\<lparr>sys_currentPosition := oldpos ?smp0 + shift_of ?smp0 (rnd (nat m)),
                     sys_currentForce := shift_of ?smp0 (rnd (nat m))\<rparr>, nat m)"
    unfolding f
    by (subst loop_start) (rule loop_rejecting_forced [OF mx0 conv0 rej0 _ m0], simp)
  then show ?thesis
    by (simp add: metropolis_step_def Let_def proposal_def)
qed

theorem metropolis_forced_acceptance_witness:
  "metropolis_step 3 alternating_draws (bounded_sampler (Fin 2) Infinite)
       (harmonic_system (1 / 2))
     = Some (Inr (- 9 / 2, NaN, - 5),
             (bounded_sampler (Fin 2) Infinite)
               \<lparr>oldpos := 1 / 2, posShift := - 5, newPos := 1 / 2\<rparr>,
             (harmonic_system (1 / 2))\<lparr>sys_currentPosition := - 9 / 2, sys_currentForce := - 5\<rparr>,
             2)"
  using metropolis_forced_acceptance [of "bounded_sampler (Fin 2) Infinite" 2
      "harmonic_system (1 / 2)" alternating_draws 3]
  by (simp add: proposal_def) (simp add: bounded_sampler_def harmonic_system_def)

subsection \<open>The scratch fields after the error\<close>

text \<open>
  C10. Every pass writes its proposal into \<^verbatim>\<open>system._currentPosition\<close> and
  \<^verbatim>\<open>system._currentForce\<close> before the test (\<open>propose\<close> precedes \<open>break_test\<close> in
  the loop). So whenever the step raises the non-convergence error, at least one proposal was
  drawn, the last one was rejected by the criterion, and the system's scratch fields (and the
  sampler's \<^verbatim>\<open>posShift\<close>) hold that rejected proposal, while the state snapshot is the
  one from before the step.
\<close>

theorem metropolis_error_leaves_proposal:
  assumes "metropolis_step fuel rnd smp sys = Some (Inl ValueError, smp', sys', n)"
  shows "0 < n
         \<and> sys_currentPosition sys' = proposal smp sys (rnd (n - 1))
         \<and> sys_currentForce sys' = shift_of smp (rnd (n - 1))
         \<and> posShift smp' = shift_of smp (rnd (n - 1))
         \<and> rejected smp sys (rnd (n - 1))
         \<and> current_state sys' = current_state sys"
proof -
  let ?cs = "current_state sys"
  let ?smp0 = "smp\<lparr>oldpos := st_position ?cs\<rparr>"
  from assms have
    "metropolis_loop fuel rnd ?cs ?smp0 sys 0 = Some (Raised ValueError, smp', sys', n)"
    by (auto simp: metropolis_step_def Let_def
        split: option.splits loop_exit.splits prod.splits)
  then have "metropolis_loop fuel rnd ?cs (?smp0\<lparr>posShift := posShift ?smp0\<rparr>)
        (sys\<lparr>sys_currentPosition := sys_currentPosition sys,
            sys_currentForce := sys_currentForce sys\<rparr>) 0
        = Some (Raised ValueError, smp', sys', n)"
    by simp
  from loop_raise_inv [OF this] show ?thesis
    by (simp add: rejects_rejected proposal_def)
qed

theorem metropolis_error_leaves_proposal_witness:
  "metropolis_step 2 alternating_draws (bounded_sampler (Fin 10000) (Fin 2))
       (harmonic_system (1 / 2))
     = Some (Inl ValueError,
             (bounded_sampler (Fin 10000) (Fin 2))\<lparr>oldpos := 1 / 2, posShift := 5\<rparr>,
             (harmonic_system (1 / 2))\<lparr>sys_currentPosition := 11 / 2, sys_currentForce := 5\<rparr>,
             2)
   \<and> sys_currentPosition (harmonic_system (1 / 2)) = 1 / 2
   \<and> sys_currentPosition
        ((harmonic_system (1 / 2))\<lparr>sys_currentPosition := 11 / 2, sys_currentForce := 5\<rparr>)
       = proposal (bounded_sampler (Fin 10000) (Fin 2)) (harmonic_system (1 / 2))
           (alternating_draws 1)
   \<and> proposal (bounded_sampler (Fin 10000) (Fin 2)) (harmonic_system (1 / 2))
        (alternating_draws 1) = 11 / 2
   \<and> rejected (bounded_sampler (Fin 10000) (Fin 2)) (harmonic_system (1 / 2))
        (alternating_draws 1)"
proof -
  have h: "metropolis_step 2 alternating_draws (bounded_sampler (Fin 10000) (Fin 2))
               (harmonic_system (1 / 2))
             = Some (Inl ValueError,
                     (bounded_sampler (Fin 10000) (Fin 2))\<lparr>oldpos := 1 / 2, posShift := 5\<rparr>,
                     (harmonic_system (1 / 2))
                       \<lparr>sys_currentPosition := 11 / 2, sys_currentForce := 5\<rparr>, 2)"
    apply (simp add: metropolis_step_def Let_def)
    apply (simp add: eval_nat_numeral propose_def random_shift_def break_test_def
        criterion_test_def critInSpaceRange_def bounded_sampler_def harmonic_system_def
        alternating_draws_def)
    done
  have p: "proposal (bounded_sampler (Fin 10000) (Fin 2)) (harmonic_system (1 / 2))
             (alternating_draws 1) = 11 / 2"
    by (simp add: proposal_def) (simp add: harmonic_system_def)
  show ?thesis
    using h p metropolis_error_leaves_proposal [OF h]
    by (simp add: harmonic_system_def)
qed

section \<open>Properties of the EDS system's setters\<close>

text \<open>
  The setters of the two-state EDS potential of the sources,
  \<^verbatim>\<open>exponentialCoupledPotentials\<close>, update the constants and recompile.
\<close>

lemma set_s_pushes:
  "c_s (constants (set_s s p)) = s
   \<and> compiled_V (set_s s p) = coupling (constants (set_s s p))
   \<and> compiled_dVdpos (set_s s p) = coupling_dVdpos (constants (set_s s p))
   \<and> compilations (set_s s p) = Suc (compilations p)"
  by (simp add: set_s_def update_functions_def)

lemma set_Eoff_pushes:
  "set_Eoff (a # b # rest) p = Inr p' \<Longrightarrow>
     c_eoffA (constants p') = a \<and> c_eoffB (constants p') = b
     \<and> compiled_V p' = coupling (constants p')
     \<and> compilations p' = Suc (compilations p)"
  by (auto simp: set_Eoff_def update_functions_def)

text \<open>
  C2. On an EDS system, \<^verbatim>\<open>set_s(s)\<close> stores \<open>s\<close> in the system and in the owned
  enveloped potential's constants, the potential's evaluators are derived anew from the
  updated constants (one derivation more than before), and the system's aggregate potential
  energy is then the new evaluator's energy at the current position, the total energy built
  on it. \<^verbatim>\<open>set_Eoff(Eoff)\<close> does the same with the offsets. The potential's side of it
  is modelled from the spec.
\<close>

theorem eds_setters_push_recompile_refresh:
  "currentEdsS (eds_set_s s sys) = s
   \<and> ep_constants (potential (eds_set_s s sys)) = (ep_constants (potential sys))\<lparr>ec_s := s\<rparr>
   \<and> ep_substituted (potential (eds_set_s s sys)) = ep_constants (potential (eds_set_s s sys))
   \<and> ep_compilations (potential (eds_set_s s sys)) = Suc (ep_compilations (potential sys))
   \<and> currentTotPot (eds_set_s s sys)
       = enveloped_V ((ep_constants (potential sys))\<lparr>ec_s := s\<rparr>) (eds_currentPosition sys)
   \<and> currentTotE (eds_set_s s sys)
       = currentTotPot (eds_set_s s sys) + currentTotKin (eds_set_s s sys)
   \<and> currentEdsEoffs (eds_set_Eoff Eoff sys) = Eoff
   \<and> ep_constants (potential (eds_set_Eoff Eoff sys))
       = (ep_constants (potential sys))\<lparr>ec_Eoff_i := Eoff\<rparr>
   \<and> ep_substituted (potential (eds_set_Eoff Eoff sys))
       = ep_constants (potential (eds_set_Eoff Eoff sys))
   \<and> ep_compilations (potential (eds_set_Eoff Eoff sys)) = Suc (ep_compilations (potential sys))
   \<and> currentTotPot (eds_set_Eoff Eoff sys)
       = enveloped_V ((ep_constants (potential sys))\<lparr>ec_Eoff_i := Eoff\<rparr>)
           (eds_currentPosition sys)
   \<and> currentTotE (eds_set_Eoff Eoff sys)
       = currentTotPot (eds_set_Eoff Eoff sys) + currentTotKin (eds_set_Eoff Eoff sys)"
  by (simp add: eds_set_s_def eds_set_Eoff_def enveloped_set_s_def enveloped_assign_Eoff_i_def
      enveloped_update_functions_def updateSystemProperties_def enveloped_ene_def Let_def)

text \<open>
  On the default system: after \<^verbatim>\<open>set_s(2)\<close> and after \<^verbatim>\<open>set_Eoff([1, 2])\<close> the
  potential holds the new value, its evaluators have been derived a second time from it, and
  the refreshed potential energy is the closed form at the new constants.
\<close>

lemma eds_setters_example:
  "ec_s (ep_substituted (potential (eds_set_s 2 example_edsSystem))) = 2
   \<and> ep_compilations (potential (eds_set_s 2 example_edsSystem)) = 2
   \<and> ec_Eoff_i (ep_substituted (potential (eds_set_Eoff [1, 2] example_edsSystem))) = [1, 2]
   \<and> ep_compilations (potential (eds_set_Eoff [1, 2] example_edsSystem)) = 2
   \<and> currentTotPot (eds_set_Eoff [1, 2] example_edsSystem)
       = enveloped_V \<lparr>ec_V_is = [harmonicOscillatorPotential 1 2 0,
                                  harmonicOscillatorPotential 1 (- 2) 0],
                      ec_s = 1, ec_Eoff_i = [1, 2], ec_T = 298\<rparr> 1"
  by (simp add: eds_set_s_def eds_set_Eoff_def enveloped_set_s_def enveloped_assign_Eoff_i_def
      enveloped_update_functions_def updateSystemProperties_def enveloped_ene_def Let_def
      example_edsSystem_def)

section \<open>Properties of the Langevin samplers\<close>

lemma update_positon_velocity_length:
  "fst (update_positon_velocity smp sys r1 r2) = Inr t \<Longrightarrow> length t = 2"
  by (auto simp: update_positon_velocity_def Let_def
      split: option.splits sum.splits if_splits prod.splits)

lemma unpack_two_raises:
  assumes "\<And>t. fst res = Inr t \<Longrightarrow> length t = 2"
  shows "\<exists>e. fst (case res of
                    (Inl e, smp3) \<Rightarrow> (Inl e, smp3)
                  | (Inr [new_position, new_velocity, curr_random], smp3) \<Rightarrow>
                      X new_position new_velocity curr_random smp3
                  | (Inr _, smp3) \<Rightarrow> (Inl ValueError, smp3)) = Inl e"
proof (cases res)
  case (Pair r smp3)
  show ?thesis
  proof (cases r)
    case (Inl e)
    with Pair show ?thesis by simp
  next
    case (Inr t)
    with Pair assms have "length t = 2"
      by simp
    then obtain a b where "t = [a, b]"
      by (cases t; cases "tl t"; cases "tl (tl t)") auto
    with Pair Inr show ?thesis by simp
  qed
qed

text \<open>
  With the velocity variant, \<^verbatim>\<open>step\<close> returns nothing for any sampler, system and
  random numbers: \<^verbatim>\<open>update_positon\<close> raises, or the unpacking of its 2-tuple does.
\<close>

lemma langevin_velocity_step_never_emits:
  "\<exists>e. fst (langevin_step VelocityLangevin smp sys r1 r2) = Inl e"
  unfolding langevin_step_def update_positon_def Let_def langevin_class.case
  by (rule unpack_two_raises) (rule update_positon_velocity_length)

text \<open>The position variant's 3-tuple unpacks, and its step emits a position.\<close>

lemma langevin_position_step_emits:
  "fst (langevin_step PositionLangevin (langevinIntegrator_init (1 / 200) 50 None)
          harmonic_langevin_system r1 r2)
   = Inr [Float ((1 / (1 + 50 * (1 / 200) / 2))
                  * (2 * 1 - 1 + 50 * ((1 / 200) / 2) * 1
                     + ((1 / 200) ^ 2 / 1) * (sqrt (2 * 298 * 50 * 1 / (1 / 200)) * r1 + - 1))),
          PyNone, Float (- 1)]"
  by (simp add: langevin_step_def update_positon_def update_positon_position_def
      fluctuation_def langevinIntegrator_init_def harmonic_langevin_system_def Let_def)

text \<open>
  C6 fails on the code. For the velocity Langevin sampler with the constructor's defaults
  (\<open>dt = 0.005\<close>, \<open>gamma = 50\<close>) on the harmonic system, \<^verbatim>\<open>step\<close> raises ValueError
  for all random numbers: \<^verbatim>\<open>update_positon\<close> returns two values and \<^verbatim>\<open>step\<close>
  unpacks three. Neither a position nor a velocity is emitted.
\<close>

theorem langevin_velocity_step_raises:
  "fst (langevin_step VelocityLangevin (langevinIntegrator_init (1 / 200) 50 None)
          harmonic_langevin_system r1 r2) = Inl ValueError"
  by (simp add: langevin_step_def update_positon_def update_positon_velocity_def
      velocity_first_step_def fluctuation_def langevinIntegrator_init_def
      harmonic_langevin_system_def Let_def)

section \<open>Properties of the enveloped potential's gradient routine\<close>

text \<open>
  The sum of the state energies is taken without an axis, so it is a scalar, and the
  \<^verbatim>\<open>map\<close> over it raises TypeError for every input with a state.
\<close>

lemma calculate_dvdpos_singlePos_TypeError:
  assumes "V_is \<noteq> []" and "position \<noteq> []"
  shows "calculate_dvdpos_singlePos V_is position = Inl TypeError"
proof -
  obtain p ps x xs where "V_is = p # ps" and "position = x # xs"
    using assms by (cases V_is; cases position) auto
  then show ?thesis
    by (simp add: calculate_dvdpos_singlePos_def Let_def prefactors_of_state_def py_iter_def
        split: ndarray.splits)
qed

text \<open>No input at all makes the routine return.\<close>

lemma calculate_dvdpos_singlePos_never_returns:
  "\<exists>e. calculate_dvdpos_singlePos V_is position = Inl e"
  by (auto simp: calculate_dvdpos_singlePos_def Let_def
      split: sum.splits list.splits ndarray.splits)

text \<open>
  The factor the routine computes for a state, \<open>1 - V\<^sub>i / \<Sum>\<^sub>j V\<^sub>j\<close>, is not the
  Boltzmann weight either: for the state energies \<open>0\<close> and \<open>1\<close> (no offsets,
  \<open>\<beta> s = 1\<close>) it is \<open>1\<close> for the first state, whose weight is below \<open>1\<close>.
\<close>

lemma prefactor_example: "prefactor (Num 0) (Num 1) = Inr (Num 1)"
  by (simp add: prefactor_def)

lemma spec_weights_example:
  "spec_weights 1 [0, 1] [0, 0] = [1 / (1 + exp (- 1)), exp (- 1) / (1 + exp (- 1))]"
  by (simp add: spec_weights_def boltzmann_factors_def)

lemma spec_weight_below_one: "hd (spec_weights 1 [0, 1] [0, 0]) < 1"
proof -
  have "(0::real) < exp (- 1)"
    by simp
  then have "1 / (1 + exp (- 1)) < (1::real)"
    by (simp add: add_pos_pos)
  then show ?thesis
    by (simp add: spec_weights_example)
qed

lemma spec_gradient_example: "spec_gradient 1 [0, 1] [0, 0] [1, 0] < 1"
proof -
  have "(0::real) < exp (- 1)"
    by simp
  then have "1 / (1 + exp (- 1)) < (1::real)"
    by (simp add: add_pos_pos)
  then show ?thesis
    by (simp add: spec_gradient_def spec_weights_example)
qed

text \<open>
  C1 fails on the code. For the enveloped potential of two harmonic states
  (\<open>k = 1\<close>, minima at \<open>0\<close> and \<open>2\<close>) and one one-dimensional position \<open>1\<close> per
  state, the gradient routine raises TypeError; it returns no combination of the state
  forces, so not the Boltzmann-weighted sum.
\<close>

theorem enveloped_gradient_raises:
  "calculate_dvdpos_singlePos [harmonic_state 1 0, harmonic_state 1 2]
     [Arr [Arr [Num 1]], Arr [Arr [Num 1]]] = Inl TypeError"
  by (simp add: calculate_dvdpos_singlePos_def Let_def prefactors_of_state_def py_iter_def
      harmonic_state_def)

end
